theory Spec2Isabelle
  imports Complex_Main "HOL-Library.Sublist"
begin

section \<open>Strings\<close>

text \<open>
  Strings of the route are modelled as \<^typ>\<open>string\<close>; the model covers ASCII text, where
  one character is one UTF-16 code unit and \<open>length\<close> is the script's \<open>.length\<close>.
\<close>

definition lower_char :: "char \<Rightarrow> char" where
  "lower_char c =
     (case map_of (zip ''ABCDEFGHIJKLMNOPQRSTUVWXYZ'' ''abcdefghijklmnopqrstuvwxyz'') c of
        None \<Rightarrow> c | Some d \<Rightarrow> d)"

definition toLowerCase :: "string \<Rightarrow> string" where
  "toLowerCase s = map lower_char s"

text \<open>\<open>s.includes(sub)\<close>: \<open>sub\<close> occurs in \<open>s\<close> as a contiguous run.\<close>

definition str_includes :: "string \<Rightarrow> string \<Rightarrow> bool" where
  "str_includes s sub = sublist sub s"

text \<open>\<open>Array.from(new Set(xs))\<close>: duplicates removed, the first occurrence kept.\<close>

fun uniq :: "'a list \<Rightarrow> 'a list" where
  "uniq [] = []"
| "uniq (x # xs) = x # uniq (filter (\<lambda>y. y \<noteq> x) xs)"

text \<open>\<open>xs.join(sep)\<close>\<close>

fun join :: "string \<Rightarrow> string list \<Rightarrow> string" where
  "join sep [] = []"
| "join sep [x] = x"
| "join sep (x # y # ys) = x @ sep @ join sep (y # ys)"

text \<open>\<open>xs.slice(-n)\<close>: the last \<open>n\<close> elements.\<close>

definition last_n :: "nat \<Rightarrow> 'a list \<Rightarrow> 'a list" where
  "last_n n xs = drop (length xs - n) xs"

text \<open>A number inside a template literal: its decimal digits.\<close>

fun show_nat :: "nat \<Rightarrow> string" where
  "show_nat n =
     (if n < 10 then [''0123456789'' ! n]
      else show_nat (n div 10) @ [''0123456789'' ! (n mod 10)])"

text \<open>The character classes \<open>\d\<close>, \<open>\w\<close> and \<open>\s\<close>, and \<open>trim()\<close>.\<close>

definition is_digit :: "char \<Rightarrow> bool" where
  "is_digit c = (c \<in> set ''0123456789'')"

definition is_word_char :: "char \<Rightarrow> bool" where
  "is_word_char c =
     (c \<in> set ''abcdefghijklmnopqrstuvwxyzABCDEFGHIJKLMNOPQRSTUVWXYZ0123456789_'')"

definition is_space :: "char \<Rightarrow> bool" where
  "is_space c = (c \<in> set [CHR '' '', CHR 0x09, CHR 0x0A, CHR 0x0B, CHR 0x0C, CHR 0x0D])"

definition trim :: "string \<Rightarrow> string" where
  "trim s = rev (dropWhile is_space (rev (dropWhile is_space s)))"

section \<open>Regular expressions\<close>

text \<open>
  The patterns of the fact extractor use character classes, sequence, alternation and
  greedy bounded repetition (\<open>*\<close>, \<open>+\<close>, \<open>?\<close>, \<open>{m,n}\<close>). \<open>Rep m n r\<close> repeats
  \<open>r\<close> at least \<open>m\<close> times and at most \<open>n\<close> times (\<open>None\<close>: no upper bound).
\<close>

datatype rx =
    Eps
  | Cls "char \<Rightarrow> bool"
  | Seq rx rx
  | Alt rx rx
  | Rep nat "nat option" rx

fun rx_size :: "rx \<Rightarrow> nat" where
  "rx_size Eps = 1"
| "rx_size (Cls p) = 1"
| "rx_size (Seq a b) = rx_size a + rx_size b + 1"
| "rx_size (Alt a b) = rx_size a + rx_size b + 1"
| "rx_size (Rep m n a) = rx_size a + 1"

text \<open>
  The backtracking matcher, anchored at the start of \<open>s\<close>: every way \<open>r\<close> matches a prefix
  of \<open>s\<close>, as the list of the remaining suffixes, in the order in which backtracking tries
  them (a greedy repetition tries one more iteration first, an alternation its left branch
  first). The head of the list is the match a JavaScript engine reports. An iteration that
  consumes nothing is not repeated.
\<close>

function rx_match :: "rx \<Rightarrow> string \<Rightarrow> string list" where
  "rx_match Eps s = [s]"
| "rx_match (Cls p) s = (case s of [] \<Rightarrow> [] | c # t \<Rightarrow> if p c then [t] else [])"
| "rx_match (Seq a b) s = concat (map (rx_match b) (rx_match a s))"
| "rx_match (Alt a b) s = rx_match a s @ rx_match b s"
| "rx_match (Rep m n a) s =
     (if n = Some 0 then [s]
      else concat (map (\<lambda>t. if length t < length s
                            then rx_match (Rep (m - 1) (map_option (\<lambda>k. k - 1) n) a) t
                            else [])
                     (rx_match a s))
           @ (if m = 0 then [s] else []))"
  by pat_completeness auto
termination
  by (relation "(\<lambda>(r, s). rx_size r) <*mlex*> measure (\<lambda>(r, s). length s)")
     (auto simp: mlex_prod_def wf_mlex)

definition chr :: "char \<Rightarrow> rx" where
  "chr c = Cls (\<lambda>x. x = c)"

text \<open>A literal under the \<open>i\<close> flag: each character matches in either case.\<close>

definition lit_i :: "string \<Rightarrow> rx" where
  "lit_i s = foldr (\<lambda>c r. Seq (Cls (\<lambda>x. lower_char x = lower_char c)) r) s Eps"

definition star :: "rx \<Rightarrow> rx" where
  "star r = Rep 0 None r"

definition plus :: "rx \<Rightarrow> rx" where
  "plus r = Rep 1 None r"

definition opt :: "rx \<Rightarrow> rx" where
  "opt r = Rep 0 (Some 1) r"

definition seqs :: "rx list \<Rightarrow> rx" where
  "seqs rs = foldr Seq rs Eps"

fun alts :: "rx list \<Rightarrow> rx" where
  "alts [] = Cls (\<lambda>c. False)"
| "alts [r] = r"
| "alts (r # rs) = Alt r (alts rs)"

definition not_dot :: rx where
  "not_dot = Cls (\<lambda>c. c \<noteq> CHR ''.'')"

text \<open>
  \<open>s.match(r)\<close> for a pattern with the \<open>g\<close> flag: the matched substrings, left to right,
  each search starting where the previous match ended (one character further after an
  empty match); \<open>null\<close> is the empty list.
\<close>

function global_match :: "rx \<Rightarrow> string \<Rightarrow> string list" where
  "global_match r [] = (case rx_match r [] of [] \<Rightarrow> [] | _ \<Rightarrow> [[]])"
| "global_match r (c # s) =
     (case rx_match r (c # s) of
        [] \<Rightarrow> global_match r s
      | t # _ \<Rightarrow>
          if length t < length (c # s)
          then take (length (c # s) - length t) (c # s) # global_match r t
          else [] # global_match r s)"
  by pat_completeness auto
termination
  by (relation "measure (\<lambda>(r, s). length s)") auto

text \<open>\<open>r.test(s)\<close> for a pattern without the \<open>g\<close> flag: \<open>r\<close> matches somewhere in \<open>s\<close>.\<close>

fun rx_test :: "rx \<Rightarrow> string \<Rightarrow> bool" where
  "rx_test r [] = (rx_match r [] \<noteq> [])"
| "rx_test r (c # s) = (rx_match r (c # s) \<noteq> [] \<or> rx_test r s)"

text \<open>
  \<open>s.replace(/^[^\w]*|[^\w]*$/g, '')\<close>: the left branch matches at the start only and
  removes the leading run of non-word characters; the right branch matches only a run
  that reaches the end of the string and removes the trailing run.
\<close>

definition strip_non_word :: "string \<Rightarrow> string" where
  "strip_non_word s =
     rev (dropWhile (\<lambda>c. \<not> is_word_char c) (rev (dropWhile (\<lambda>c. \<not> is_word_char c) s)))"

text \<open>
  \<open>s.split(/[.!?]+/)\<close>: the pieces between maximal runs of sentence-ending characters,
  empty pieces at either end included.
\<close>

definition is_sentence_end :: "char \<Rightarrow> bool" where
  "is_sentence_end c = (c \<in> set ''.!?'')"

function split_sentences :: "string \<Rightarrow> string list" where
  "split_sentences s =
     (let w = takeWhile (\<lambda>c. \<not> is_sentence_end c) s;
          r = dropWhile (\<lambda>c. \<not> is_sentence_end c) s
      in if r = [] then [w] else w # split_sentences (dropWhile is_sentence_end r))"
  by pat_completeness auto
termination
proof (relation "measure length", goal_cases)
  case 1
  show ?case by simp
next
  case (2 s w r)
  then obtain c t where r: "r = c # t" and c: "is_sentence_end c"
    by (metis dropWhile_eq_Cons_conv neq_Nil_conv)
  have "length (dropWhile is_sentence_end r) \<le> length t"
    using r c by (simp add: length_dropWhile_le)
  moreover have "length r \<le> length s"
    using 2 by (simp add: length_dropWhile_le)
  ultimately show ?case using r by simp
qed

declare split_sentences.simps [simp del]

section \<open>The fact extractor\<close>

record fact =
  fact_content :: string
  confidence :: rat
  source_context :: string
  suggested_tags :: "string list"

definition extractTagsFromContent :: "string \<Rightarrow> string \<Rightarrow> string list" where
  "extractTagsFromContent txt query =
     take 4 (uniq (
       (if str_includes (toLowerCase query) ''impact'' then [''impact''] else []) @
       (if str_includes (toLowerCase query) ''education'' then [''education''] else []) @
       (if str_includes (toLowerCase query) ''university'' then [''university''] else []) @
       (if str_includes (toLowerCase query) ''student'' then [''students''] else []) @
       (if str_includes (toLowerCase txt) ''university'' then [''university''] else []) @
       (if str_includes (toLowerCase txt) ''student'' then [''students''] else []) @
       (if str_includes (toLowerCase txt) ''program'' then [''programs''] else []) @
       (if str_includes (toLowerCase txt) ''completion'' then [''completion-rates''] else []) @
       (if str_includes (toLowerCase txt) ''million'' then [''scale''] else []) @
       (if str_includes (toLowerCase txt) ''%'' then [''statistics''] else []) @
       (if str_includes (toLowerCase txt) ''indigenous'' then [''indigenous''] else []) @
       (if str_includes (toLowerCase txt) ''mentor'' then [''mentoring''] else [])))"

text \<open>
  The pattern tables, in the order of the source. The first statistical pattern,
  \<open>/(\d+(?:\.\d+)?%[^.]*)/g\<close>, has a name of its own.
\<close>

definition percent_pattern :: rx where
  "percent_pattern =
     seqs [plus (Cls is_digit), opt (seqs [chr CHR ''.'', plus (Cls is_digit)]),
           chr CHR ''%'', star not_dot]"

definition statPatterns :: "rx list" where
  "statPatterns =
     [percent_pattern,
      seqs [plus (Cls is_digit),
            star (seqs [chr CHR '','', Rep 3 (Some 3) (Cls is_digit)]),
            opt (seqs [chr CHR ''.'', plus (Cls is_digit)]),
            plus (Cls is_space),
            alts [seqs [lit_i ''student'', opt (lit_i ''s'')],
                  lit_i ''people'',
                  seqs [lit_i ''participant'', opt (lit_i ''s'')],
                  seqs [lit_i ''universitie'', opt (lit_i ''s'')],
                  seqs [lit_i ''program'', opt (lit_i ''s'')]],
            star not_dot],
      seqs [lit_i ''over '', plus (Cls is_digit), star not_dot],
      seqs [lit_i ''more than '', plus (Cls is_digit), star not_dot],
      seqs [lit_i ''up to '', plus (Cls is_digit), star not_dot]]"

definition aimePatterns :: "rx list" where
  "aimePatterns =
     [seqs [lit_i ''AIME '', Rep 20 (Some 150) not_dot],
      seqs [lit_i ''IMAGI-NATION '', Rep 20 (Some 150) not_dot]]"

definition conceptPatterns :: "rx list" where
  "conceptPatterns =
     [seqs [lit_i ''visa'', star not_dot,
            alts [lit_i ''membership'', lit_i ''participation'', lit_i ''role'', lit_i ''way to''],
            star not_dot],
      seqs [lit_i ''mentor'', star not_dot,
            alts [lit_i ''matching'', lit_i ''program'', lit_i ''system''],
            star not_dot],
      seqs [lit_i ''appears to be'', Rep 20 (Some 150) not_dot],
      seqs [lit_i ''represents'', Rep 20 (Some 150) not_dot],
      seqs [lit_i ''in order to'', Rep 20 (Some 150) not_dot]]"

definition keyTerms :: "string list" where
  "keyTerms = [''visa'', ''aime'', ''imagi-nation'', ''mentor'', ''program'', ''system'',
               ''movement'', ''participation'']"

definition definitionPattern :: rx where
  "definitionPattern =
     alts [lit_i ''is'', lit_i ''are'', lit_i ''seems to be'', lit_i ''appears to be'',
           lit_i ''represents'', lit_i ''means'']"

text \<open>
  One loop over a pattern table: every match of every pattern, cleaned by \<open>clean\<close>, is kept
  as a fact when its length lies strictly between \<open>lo\<close> and \<open>hi\<close>.
\<close>

definition pattern_facts ::
  "rx list \<Rightarrow> (string \<Rightarrow> string) \<Rightarrow> nat \<Rightarrow> nat \<Rightarrow> rat \<Rightarrow> string \<Rightarrow> string \<Rightarrow> string
     \<Rightarrow> fact list" where
  "pattern_facts patterns clean lo hi conf label response query =
     concat (map (\<lambda>pattern.
       concat (map (\<lambda>m.
         let cleanMatch = clean m in
         if length cleanMatch > lo \<and> length cleanMatch < hi
         then [\<lparr>fact_content = cleanMatch, confidence = conf,
                source_context = label @ query @ [CHR 0x22],
                suggested_tags = extractTagsFromContent cleanMatch query\<rparr>]
         else [])
         (global_match pattern response)))
       patterns)"

definition sentence_facts :: "string \<Rightarrow> string \<Rightarrow> fact list" where
  "sentence_facts response query =
     concat (map (\<lambda>sentence.
       let hasKeyTerm = list_ex (\<lambda>term. str_includes (toLowerCase sentence) term) keyTerms;
           hasDefinition = rx_test definitionPattern sentence
       in if hasKeyTerm \<and> hasDefinition \<and> length (trim sentence) > 30
             \<and> length (trim sentence) < 200
          then [\<lparr>fact_content = trim sentence, confidence = 6 / 10,
                 source_context = ''Definition from: '' @ [CHR 0x22] @ query @ [CHR 0x22],
                 suggested_tags = extractTagsFromContent (trim sentence) query\<rparr>]
          else [])
       (filter (\<lambda>s. length (trim s) > 30) (split_sentences response)))"

text \<open>\<open>facts.filter((fact, index, self) => index === self.findIndex(f => f.content === fact.content))\<close>\<close>

fun dedupe_facts :: "fact list \<Rightarrow> fact list" where
  "dedupe_facts [] = []"
| "dedupe_facts (f # fs) =
     f # dedupe_facts (filter (\<lambda>g. fact_content g \<noteq> fact_content f) fs)"

definition all_facts :: "string \<Rightarrow> string \<Rightarrow> fact list" where
  "all_facts response query =
     pattern_facts statPatterns (\<lambda>m. strip_non_word (trim m)) 10 200 (8 / 10)
       (''Statistical information from: '' @ [CHR 0x22]) response query
     @ pattern_facts aimePatterns trim 20 200 (7 / 10)
       (''AIME program information from: '' @ [CHR 0x22]) response query
     @ pattern_facts conceptPatterns trim 25 200 (6 / 10)
       (''Concept definition from: '' @ [CHR 0x22]) response query
     @ sentence_facts response query"

text \<open>
  \<open>extractFactsFromResponse(response, query, chunks)\<close>; the third parameter is the list of
  retrieved chunks, of any type here.
\<close>

definition extractFactsFromResponse :: "string \<Rightarrow> string \<Rightarrow> 'c list \<Rightarrow> fact list" where
  "extractFactsFromResponse response query chunks =
     take 3 (dedupe_facts (all_facts response query))"

section \<open>Passage candidates and the chunk store\<close>

record chunk =
  chunk_id :: string
  document_id :: string
  document_title :: string
  chunk_index :: nat
  content :: string
  similarity :: "rat option"
  match_type :: "string option"

text \<open>
  \<open>.select('chunk_id, document_id, document_title, chunk_index, content')\<close>: the five stored
  columns; a selected row carries neither a similarity nor a match type.
\<close>

definition select_columns :: "chunk \<Rightarrow> chunk" where
  "select_columns c = c\<lparr>similarity := None, match_type := None\<rparr>"

record airtable_theme =
  theme_id :: string
  theme_name :: "string option"

record airtable_document =
  doc_id :: string
  doc_themes :: "string list"

record chat_message =
  role :: string
  message_content :: string

text \<open>The external calls a request can issue.\<close>

datatype call =
    EmbeddingsCreate string
  | SelectDocumentChunks string
  | FetchAirtable
  | SelectThemeChunks "string list"
  | RpcMatchChunks
  | SelectHoodieChunks
  | SelectFallbackChunks
  | AnthropicCreate string "chat_message list"
  | OpenAICreate "chat_message list"

text \<open>A content block of an Anthropic answer: \<open>type === 'text'\<close> with its text, or another type.\<close>

datatype content_block = TextBlock string | OtherBlock

text \<open>
  The collaborators of one request. The table \<open>document_chunks\<close> is a list of rows in stored
  order; a Supabase query answers \<open>{data, error}\<close>, and \<open>query_error\<close> says which queries
  answer with an error. \<open>match_chunks\<close> is a stored procedure of the database, outside the
  route: it is a parameter (\<open>None\<close> is an error answer). \<open>airtable_records\<close> is the pair of
  record lists of the two Airtable fetches, \<open>None\<close> when a fetch throws or is not \<open>ok\<close>.
  A provider call answers \<open>None\<close> when it throws: \<open>embeddings_create\<close> gives the vector
  \<open>data[0].embedding\<close>, \<open>anthropic_create\<close> (system prompt, messages) the list
  \<open>response.content\<close>, \<open>openai_create\<close> the \<open>message.content\<close> of each choice.
\<close>

record env =
  embeddings_create :: "string \<Rightarrow> rat list option"
  document_chunks :: "chunk list"
  query_error :: "call \<Rightarrow> bool"
  match_chunks :: "rat list \<Rightarrow> rat \<Rightarrow> nat \<Rightarrow> chunk list option"
  airtable_credentials :: bool
  airtable_records :: "(airtable_document list \<times> airtable_theme list) option"
  anthropic_api_key :: "string option"
  anthropic_create :: "string \<Rightarrow> chat_message list \<Rightarrow> content_block list option"
  openai_create :: "chat_message list \<Rightarrow> string option list option"

definition supabase :: "env \<Rightarrow> call \<Rightarrow> chunk list \<Rightarrow> chunk list option" where
  "supabase e q rows = (if query_error e q then None else Some (map select_columns rows))"

section \<open>Retrieval: \<open>searchSimilarChunks\<close>\<close>

definition maxPerDocument :: nat where
  "maxPerDocument = 2"

text \<open>\<open>chunk.similarity || 0\<close>\<close>

definition similarity_or_0 :: "chunk \<Rightarrow> rat" where
  "similarity_or_0 c = (case similarity c of None \<Rightarrow> 0 | Some s \<Rightarrow> s)"

text \<open>
  \<open>allResults.sort((a, b) => (b.similarity || 0) - (a.similarity || 0))\<close>: a stable sort,
  descending by similarity.
\<close>

definition sort_by_similarity :: "chunk list \<Rightarrow> chunk list" where
  "sort_by_similarity cs = sort_key (\<lambda>c. - similarity_or_0 c) cs"

text \<open>
  The loop over the sorted candidates, with its three variables \<open>uniqueResults\<close>,
  \<open>seenChunks\<close> and \<open>documentCounts\<close>; the \<open>break\<close> returns the results collected so far.
\<close>

fun diversify ::
  "nat \<Rightarrow> chunk list \<Rightarrow> string set \<Rightarrow> (string \<rightharpoonup> nat) \<Rightarrow> chunk list \<Rightarrow> chunk list" where
  "diversify limit uniqueResults seenChunks documentCounts [] = uniqueResults"
| "diversify limit uniqueResults seenChunks documentCounts (c # cs) =
     (if chunk_id c \<notin> seenChunks then
        (let docTitle = document_title c;
             currentCount = (case documentCounts docTitle of None \<Rightarrow> 0 | Some n \<Rightarrow> n)
         in if currentCount < maxPerDocument then
              (if length (uniqueResults @ [c]) \<ge> limit then uniqueResults @ [c]
               else diversify limit (uniqueResults @ [c]) (insert (chunk_id c) seenChunks)
                      (documentCounts(docTitle \<mapsto> currentCount + 1)) cs)
            else diversify limit uniqueResults seenChunks documentCounts cs)
      else diversify limit uniqueResults seenChunks documentCounts cs)"

text \<open>Step 4 of the search: sort, then deduplicate with the per-document limit.\<close>

definition merge_results :: "nat \<Rightarrow> chunk list \<Rightarrow> chunk list" where
  "merge_results limit allResults =
     diversify limit [] {} Map.empty (sort_by_similarity allResults)"

text \<open>The documents of the catalog that carry one of the selected themes.\<close>

definition matchingDocuments ::
  "airtable_document list \<Rightarrow> airtable_theme list \<Rightarrow> string list \<Rightarrow> airtable_document list" where
  "matchingDocuments documents themes selectedThemes =
     (let themeMap = map_of (rev (map (\<lambda>t. (theme_id t, theme_name t)) themes))
      in filter (\<lambda>doc.
           let docThemeNames =
             concat (map (\<lambda>i. case themeMap i of
                                 Some (Some n) \<Rightarrow> (if n = [] then [] else [n])
                               | _ \<Rightarrow> []) (doc_themes doc))
           in list_ex (\<lambda>selectedTheme. selectedTheme \<in> set docThemeNames) selectedThemes)
         documents)"

definition with_match :: "rat \<Rightarrow> string \<Rightarrow> chunk \<Rightarrow> chunk" where
  "with_match s t c = c\<lparr>similarity := Some s, match_type := Some t\<rparr>"

text \<open>The theme-filtered branch: the candidates it adds and the calls it issues.\<close>

definition theme_search :: "env \<Rightarrow> string list \<Rightarrow> chunk list \<times> call list" where
  "theme_search e selectedThemes =
     (if airtable_credentials e then
        (case airtable_records e of
           None \<Rightarrow> ([], [FetchAirtable])
         | Some (documents, themes) \<Rightarrow>
             (let matching = matchingDocuments documents themes selectedThemes in
              if matching = [] then ([], [FetchAirtable])
              else
                (let matchingDocumentIds = map doc_id matching;
                     q = SelectThemeChunks matchingDocumentIds in
                 case supabase e q
                        (take 15 (filter (\<lambda>c. document_id c \<in> set matchingDocumentIds)
                                    (document_chunks e))) of
                   None \<Rightarrow> ([], [FetchAirtable, q])
                 | Some themeChunks \<Rightarrow>
                     (map (with_match (8 / 10) ''theme_filtered'') themeChunks,
                      [FetchAirtable, q]))))
      else ([], []))"

definition vector_search :: "env \<Rightarrow> rat list \<Rightarrow> chunk list \<times> call list" where
  "vector_search e embedding =
     (case match_chunks e embedding 0 15 of
        None \<Rightarrow> ([], [RpcMatchChunks])
      | Some vectorData \<Rightarrow> (vectorData, [RpcMatchChunks]))"

definition hoodie_search :: "env \<Rightarrow> string option \<Rightarrow> chunk list \<times> call list" where
  "hoodie_search e query =
     (case query of
        None \<Rightarrow> ([], [])
      | Some q \<Rightarrow>
          if q \<noteq> [] \<and> str_includes (toLowerCase q) ''hoodie'' \<and> str_includes (toLowerCase q) ''economics''
          then
            (case supabase e SelectHoodieChunks
                    (take 2 (filter (\<lambda>c. document_title c = ''Hoodie Economics'')
                               (document_chunks e))) of
               None \<Rightarrow> ([], [SelectHoodieChunks])
             | Some hoodieData \<Rightarrow>
                 (map (with_match (95 / 100) ''direct_match'') hoodieData, [SelectHoodieChunks]))
          else ([], []))"

definition fallback_search :: "env \<Rightarrow> chunk list \<times> call list" where
  "fallback_search e =
     (case supabase e SelectFallbackChunks (take 5 (document_chunks e)) of
        None \<Rightarrow> ([], [SelectFallbackChunks])
      | Some fallbackData \<Rightarrow> (fallbackData, [SelectFallbackChunks]))"

text \<open>
  \<open>searchSimilarChunks(embedding, limit, query, documentId, selectedThemes)\<close>. A document
  identifier counts when it is given and not the empty string. The result is the list of
  chunks returned and the calls issued.
\<close>

definition searchSimilarChunks ::
  "env \<Rightarrow> rat list \<Rightarrow> nat \<Rightarrow> string option \<Rightarrow> string option \<Rightarrow> string list
     \<Rightarrow> chunk list \<times> call list" where
  "searchSimilarChunks e embedding limit query documentId selectedThemes =
     (case (case documentId of None \<Rightarrow> None | Some d \<Rightarrow> if d = [] then None else Some d) of
        Some d \<Rightarrow>
          (case supabase e (SelectDocumentChunks d)
                  (sort_key chunk_index (filter (\<lambda>c. document_id c = d) (document_chunks e))) of
             None \<Rightarrow> ([], [SelectDocumentChunks d])
           | Some docChunks \<Rightarrow>
               (merge_results limit (take limit docChunks), [SelectDocumentChunks d]))
      | None \<Rightarrow>
          (let (r1, t1) = (if selectedThemes \<noteq> [] then theme_search e selectedThemes
                           else vector_search e embedding);
               (r2, t2) = hoodie_search e query;
               (r3, t3) = (if r1 @ r2 = [] then fallback_search e else ([], []))
           in (merge_results limit (r1 @ r2 @ r3), t1 @ t2 @ t3)))"

section \<open>The concept enhancer\<close>

record insight =
  insight_title :: string
  insight_description :: string
  insight_confidence :: rat

record enhancement =
  intelligence_summary :: string
  related_concepts :: "string list"
  insights :: "insight list"
  concept_connections :: bool

definition findQueryConcepts :: "string \<Rightarrow> string list" where
  "findQueryConcepts query =
     (let queryLower = toLowerCase query in
      (if str_includes queryLower ''hoodie'' \<or> str_includes queryLower ''economics''
       then [''Hoodie Economics''] else []) @
      (if str_includes queryLower ''relational''
       then [''Community-Centered Economics''] else []) @
      (if str_includes queryLower ''indigenous'' \<or> str_includes queryLower ''cultural''
       then [''Indigenous Knowledge Integration''] else []) @
      (if str_includes queryLower ''digital'' \<or> str_includes queryLower ''recognition''
       then [''Digital Hoodies Recognition System''] else []) @
      (if str_includes queryLower ''business'' \<or> str_includes queryLower ''cases''
       then [''Relational Value Metrics''] else []) @
      (if str_includes queryLower ''scale'' \<or> str_includes queryLower ''impact''
       then [''Scaling Impact Models''] else []))"

text \<open>The \<open>switch\<close> of \<open>findRelatedConcepts\<close>: what one matched concept pushes.\<close>

definition related_of :: "string \<Rightarrow> string list" where
  "related_of concept =
     (if concept = ''Hoodie Economics''
        then [''Community-Centered Economics'', ''Relational Leadership'']
      else if concept = ''Indigenous Knowledge Integration''
        then [''Cultural Sensitivity Framework'', ''Community Consultation'']
      else if concept = ''Digital Hoodies Recognition System''
        then [''Relational Value Metrics'', ''Impact Assessment'']
      else if concept = ''Community-Centered Economics''
        then [''Social Innovation'', ''Collective Value Creation'']
      else if concept = ''Scaling Impact Models''
        then [''Community Replication'', ''Network Effects'']
      else [])"

definition findRelatedConcepts :: "string list \<Rightarrow> string list" where
  "findRelatedConcepts queryConcepts =
     filter (\<lambda>concept. concept \<notin> set queryConcepts)
       (uniq (concat (map related_of queryConcepts)))"

definition generateRelevantInsights :: "string list \<Rightarrow> insight list" where
  "generateRelevantInsights queryConcepts =
     (if list_ex (\<lambda>c. str_includes c ''Economics'' \<or> str_includes c ''Relational'') queryConcepts
      then [\<lparr>insight_title = ''Cross-Domain Innovation Pattern'',
              insight_description = ''Relational economics concepts show strong connections to indigenous systems thinking, creating unique innovation opportunities'',
              insight_confidence = 85 / 100\<rparr>]
      else []) @
     (if list_ex (\<lambda>c. str_includes c ''Indigenous'' \<or> str_includes c ''Cultural'') queryConcepts
      then [\<lparr>insight_title = ''Cultural Integration Bridge'',
              insight_description = ''Indigenous knowledge systems provide foundational frameworks that enhance contemporary methodologies'',
              insight_confidence = 9 / 10\<rparr>]
      else []) @
     (if list_ex (\<lambda>c. str_includes c ''Digital'' \<or> str_includes c ''Recognition'') queryConcepts
      then [\<lparr>insight_title = ''Recognition System Evolution'',
              insight_description = ''Digital recognition systems are evolving beyond traditional metrics to capture relational value'',
              insight_confidence = 8 / 10\<rparr>]
      else [])"

definition generateIntelligenceSummary ::
  "string \<Rightarrow> string list \<Rightarrow> string list \<Rightarrow> insight list \<Rightarrow> string" where
  "generateIntelligenceSummary query queryConcepts relatedConcepts insightList =
     (let parts =
        (if length queryConcepts > 0
         then [''Your query connects to '' @ show_nat (length queryConcepts) @ '' key concept''
               @ (if length queryConcepts > 1 then ''s'' else '''') @ '': ''
               @ join '', '' queryConcepts]
         else []) @
        (if length relatedConcepts > 0
         then [''Related concepts to explore: '' @ join '', '' (take 3 relatedConcepts)]
         else []) @
        (case insightList of
           [] \<Rightarrow> []
         | i # _ \<Rightarrow> [''Key insight: '' @ insight_description i])
      in if parts = []
         then ''This query shows potential for deeper concept exploration as the knowledge base expands.''
         else join ''. '' parts)"

text \<open>
  \<open>enhanceWithIntelligence(message, chunks)\<close>: \<open>None\<close> is the \<open>null\<close> of its \<open>catch\<close>, which
  no input of the model reaches.
\<close>

definition enhanceWithIntelligence :: "string \<Rightarrow> chunk list \<Rightarrow> enhancement option" where
  "enhanceWithIntelligence message chunks =
     (let queryConcepts = findQueryConcepts message;
          relatedConcepts = findRelatedConcepts queryConcepts;
          insightList = generateRelevantInsights queryConcepts
      in Some \<lparr>intelligence_summary =
                  generateIntelligenceSummary message queryConcepts relatedConcepts insightList,
               related_concepts = relatedConcepts,
               insights = insightList,
               concept_connections = (length queryConcepts > 0)\<rparr>)"

section \<open>The answer generator\<close>

record citation =
  cite_text :: string
  source_url :: string
  cite_document_title :: string
  cite_chunk_id :: string

record response =
  response_content :: string
  citations :: "citation list"
  extractable_facts :: "fact list"
  model_used :: string
  intelligence_enhancement :: "enhancement option"

text \<open>A thrown \<open>Error\<close> with its message.\<close>

datatype error = Error string

definition render_chunk :: "chunk \<Rightarrow> string" where
  "render_chunk c = ''Document: '' @ document_title c @ ''\<newline>Content: '' @ content c"

definition context_of :: "chunk list \<Rightarrow> string" where
  "context_of chunks = join ''\<newline>\<newline>'' (map render_chunk chunks)"

definition citation_of :: "chunk \<Rightarrow> citation" where
  "citation_of c =
     \<lparr>cite_text = content c, source_url = ''/documents/'' @ document_id c,
      cite_document_title = document_title c, cite_chunk_id = chunk_id c\<rparr>"

text \<open>
  The system prompt. The one non-ASCII character of the template, U+1F9E0, is written as
  the four bytes of its UTF-8 encoding.
\<close>

definition prompt_intro :: string where
  \<open>prompt_intro = ''You are an AI assistant for the AIME Knowledge Hub. You help users find information from research documents and answer questions based on the knowledge base.\<newline>\<newline>Context from relevant documents:\<newline>''\<close>

definition prompt_enhancement :: "enhancement \<Rightarrow> string" where
  \<open>prompt_enhancement en =
     ''\<newline>\<newline>'' @ [CHR 0xF0, CHR 0x9F, CHR 0xA7, CHR 0xA0] @ '' INTELLIGENCE ENHANCEMENT:\<newline>''
     @ intelligence_summary en
     @ ''\<newline>\<newline>Related concepts to consider: '' @ join '', '' (related_concepts en)
     @ ''\<newline>\<newline>Key insights: '' @ join ''; '' (map insight_description (insights en))\<close>

definition prompt_instructions :: string where
  \<open>prompt_instructions = ''\<newline>\<newline>Instructions:\<newline>1. Answer the user's question based on the provided context\<newline>2. If intelligence enhancement is provided, incorporate those insights naturally\<newline>3. If the context doesn't contain enough information, say so clearly\<newline>4. Always cite your sources by referencing the document titles\<newline>5. Be concise but comprehensive\<newline>6. Use a professional but friendly tone\<newline>7. If related concepts are suggested, mention them as "You might also be interested in exploring..."\<newline>\<newline>If no relevant context is provided, explain that you don't have specific information about that topic in the current knowledge base.''\<close>

definition systemPrompt :: "chunk list \<Rightarrow> enhancement option \<Rightarrow> string" where
  "systemPrompt chunks intelligenceEnhancement =
     prompt_intro @ context_of chunks
     @ (case intelligenceEnhancement of None \<Rightarrow> [] | Some en \<Rightarrow> prompt_enhancement en)
     @ prompt_instructions"

text \<open>
  \<open>generateResponse(query, chunks, model, history, intelligenceEnhancement)\<close>: the response
  or the thrown error, and the provider calls issued. The Anthropic branch needs the
  requested model to be \<open>'anthropic'\<close> and a non-empty API key in the environment; reading
  \<open>content[0].type\<close> of an empty content list throws.
\<close>

definition generateResponse ::
  "env \<Rightarrow> string \<Rightarrow> chunk list \<Rightarrow> string \<Rightarrow> chat_message list \<Rightarrow> enhancement option
     \<Rightarrow> (error + response) \<times> call list" where
  "generateResponse e query chunks model history intelligenceEnhancement =
     (let sp = systemPrompt chunks intelligenceEnhancement;
          messages = [\<lparr>role = ''system'', message_content = sp\<rparr>] @ last_n 4 history
                     @ [\<lparr>role = ''user'', message_content = query\<rparr>];
          finish = (\<lambda>txt. Inr \<lparr>response_content = txt,
                                citations = map citation_of chunks,
                                extractable_facts = extractFactsFromResponse txt query chunks,
                                model_used = model,
                                intelligence_enhancement = intelligenceEnhancement\<rparr>);
          failed = Inl (Error ''Failed to generate response'')
      in if model = ''anthropic''
            \<and> (case anthropic_api_key e of None \<Rightarrow> False | Some k \<Rightarrow> k \<noteq> [])
         then
           (let anthropicMessages = filter (\<lambda>m. role m \<noteq> ''system'') messages in
            (case anthropic_create e sp anthropicMessages of
               None \<Rightarrow> failed
             | Some [] \<Rightarrow> failed
             | Some (TextBlock txt # _) \<Rightarrow> finish txt
             | Some (OtherBlock # _) \<Rightarrow> finish [],
             [AnthropicCreate sp anthropicMessages]))
         else
           ((case openai_create e messages of
               None \<Rightarrow> failed
             | Some [] \<Rightarrow> finish []
             | Some (None # _) \<Rightarrow> finish []
             | Some (Some txt # _) \<Rightarrow> finish txt),
            [OpenAICreate messages]))"

text \<open>The system prompt a provider call carries.\<close>

fun prompt_of_call :: "call \<Rightarrow> string option" where
  "prompt_of_call (AnthropicCreate sp ms) = Some sp"
| "prompt_of_call (OpenAICreate ms) =
     (case ms of [] \<Rightarrow> None
      | m # _ \<Rightarrow> if role m = ''system'' then Some (message_content m) else None)"
| "prompt_of_call _ = None"

section \<open>The request handler\<close>

record request =
  req_message :: "string option"
  req_model :: "string option"
  req_history :: "chat_message list"
  req_enable_intelligence :: bool
  req_document_id :: "string option"
  req_selectedThemes :: "string list"

datatype http_response = Json response | JsonError nat string

definition generateEmbedding :: "env \<Rightarrow> string \<Rightarrow> (error + rat list) \<times> call list" where
  "generateEmbedding e txt =
     (case embeddings_create e txt of
        None \<Rightarrow> (Inl (Error ''Failed to generate embedding''), [EmbeddingsCreate txt])
      | Some v \<Rightarrow> (Inr v, [EmbeddingsCreate txt]))"

text \<open>
  \<open>POST(request)\<close>. The body is \<open>None\<close> when \<open>request.json()\<close> throws. A missing \<open>model\<close>
  defaults to \<open>'openai'\<close>; a missing or empty \<open>message\<close> is answered with status 400. Every
  error thrown inside is caught by the handler's one \<open>catch\<close>.
\<close>

definition POST :: "env \<Rightarrow> request option \<Rightarrow> http_response \<times> call list" where
  "POST e body =
     (case body of
        None \<Rightarrow> (JsonError 500 ''Internal server error'', [])
      | Some req \<Rightarrow>
          (case req_message req of
             None \<Rightarrow> (JsonError 400 ''Message is required'', [])
           | Some message \<Rightarrow>
               if message = [] then (JsonError 400 ''Message is required'', [])
               else
                 (case generateEmbedding e message of
                    (Inl err, t0) \<Rightarrow> (JsonError 500 ''Internal server error'', t0)
                  | (Inr embedding, t0) \<Rightarrow>
                      (let (relevantChunks, t1) =
                             searchSimilarChunks e embedding 5 (Some message)
                               (req_document_id req) (req_selectedThemes req);
                           intelligenceEnhancement =
                             (if req_enable_intelligence req
                              then enhanceWithIntelligence message relevantChunks else None);
                           model = (case req_model req of None \<Rightarrow> ''openai'' | Some m \<Rightarrow> m)
                       in case generateResponse e message relevantChunks model
                                 (req_history req) intelligenceEnhancement of
                            (Inl err, t2) \<Rightarrow>
                              (JsonError 500 ''Internal server error'', t0 @ t1 @ t2)
                          | (Inr r, t2) \<Rightarrow> (Json r, t0 @ t1 @ t2)))))"

section \<open>Example data\<close>

definition mk_chunk :: "string \<Rightarrow> string \<Rightarrow> string \<Rightarrow> nat \<Rightarrow> string \<Rightarrow> chunk" where
  "mk_chunk cid did title idx txt =
     \<lparr>chunk_id = cid, document_id = did, document_title = title, chunk_index = idx,
      content = txt, similarity = None, match_type = None\<rparr>"

text \<open>
  An environment over a given table in which every query succeeds, the vector search finds
  nothing, Airtable is not configured, no Anthropic key is set and OpenAI answers \<open>ok\<close>.
\<close>

definition mk_env :: "chunk list \<Rightarrow> env" where
  "mk_env table =
     \<lparr>embeddings_create = (\<lambda>t. Some [1 / 10, 2 / 10]),
      document_chunks = table,
      query_error = (\<lambda>q. False),
      match_chunks = (\<lambda>v th k. Some []),
      airtable_credentials = False,
      airtable_records = None,
      anthropic_api_key = None,
      anthropic_create = (\<lambda>sp ms. None),
      openai_create = (\<lambda>ms. Some [Some ''ok''])\<rparr>"

text \<open>A table holding one foreign row and the seven chunks of document \<open>doc_42\<close>.\<close>

definition doc42_table :: "chunk list" where
  "doc42_table =
     [mk_chunk ''n0'' ''doc_7'' ''Newsletter'' 0 ''news'',
      mk_chunk ''k0'' ''doc_42'' ''Annual Report'' 0 ''part 0'',
      mk_chunk ''k1'' ''doc_42'' ''Annual Report'' 1 ''part 1'',
      mk_chunk ''k2'' ''doc_42'' ''Annual Report'' 2 ''part 2'',
      mk_chunk ''k3'' ''doc_42'' ''Annual Report'' 3 ''part 3'',
      mk_chunk ''k4'' ''doc_42'' ''Annual Report'' 4 ''part 4'',
      mk_chunk ''k5'' ''doc_42'' ''Annual Report'' 5 ''part 5'',
      mk_chunk ''k6'' ''doc_42'' ''Annual Report'' 6 ''part 6'']"

text \<open>Five candidates: three of document A, one of B, one of C.\<close>

definition pool_abc :: "chunk list" where
  "pool_abc =
     [mk_chunk ''a1'' ''docA'' ''A'' 0 ''x'', mk_chunk ''a2'' ''docA'' ''A'' 1 ''x'',
      mk_chunk ''a3'' ''docA'' ''A'' 2 ''x'', mk_chunk ''b1'' ''docB'' ''B'' 0 ''x'',
      mk_chunk ''c1'' ''docC'' ''C'' 0 ''x'']"

definition two_chunks :: "chunk list" where
  "two_chunks = [mk_chunk ''k0'' ''doc_42'' ''Annual Report'' 0 ''part 0'',
                 mk_chunk ''n0'' ''doc_7'' ''Newsletter'' 0 ''news'']"

text \<open>The query and the span of the completion-rate scenario.\<close>

definition university_query :: string where
  "university_query = ''What percentage of participants completed university?''"

definition completion_span :: string where
  "completion_span = ''34% increase in completion rates''"

text \<open>An answer with a year before the span and one of the words that add a tag.\<close>

definition answer_2023 :: string where
  "answer_2023 = ''In 2023 we saw a 34% increase in completion rates for students. More.''"

text \<open>An answer of 200 characters without a full stop.\<close>

definition long_answer :: string where
  "long_answer = completion_span @ replicate 168 CHR ''a''"

text \<open>An environment whose vector search finds the given candidates.\<close>

definition vector_env :: "chunk list \<Rightarrow> env" where
  "vector_env found = (mk_env [])\<lparr>match_chunks := (\<lambda>v th k. Some found)\<rparr>"

text \<open>Four chunks of one document, stored under two titles.\<close>

definition two_titled_pool :: "chunk list" where
  "two_titled_pool =
     [mk_chunk ''d1'' ''docD'' ''Report (draft)'' 0 ''x'',
      mk_chunk ''d2'' ''docD'' ''Report (draft)'' 1 ''x'',
      mk_chunk ''d3'' ''docD'' ''Report'' 2 ''x'',
      mk_chunk ''d4'' ''docD'' ''Report'' 3 ''x'']"

definition example_request :: "string \<Rightarrow> request" where
  "example_request m =
     \<lparr>req_message = Some m, req_model = None, req_history = [],
      req_enable_intelligence = True, req_document_id = None, req_selectedThemes = []\<rparr>"

section \<open>The merged result set\<close>

definition title_count :: "string \<Rightarrow> chunk list \<Rightarrow> nat" where
  "title_count t cs = length (filter (\<lambda>c. document_title c = t) cs)"

text \<open>How many chunks of a list belong to a document.\<close>

definition document_count :: "string \<Rightarrow> chunk list \<Rightarrow> nat" where
  "document_count d cs = length (filter (\<lambda>c. document_id c = d) cs)"

text \<open>The chunks of one document carry one title.\<close>

definition one_title_per_document :: "chunk list \<Rightarrow> bool" where
  "one_title_per_document cs =
     (\<forall>c\<in>set cs. \<forall>c'\<in>set cs.
        document_id c = document_id c' \<longrightarrow> document_title c = document_title c')"

text \<open>
  The words whose tags come before \<open>statistics\<close> in \<open>extractTagsFromContent\<close> and are
  not always present: those of them that a text contains.
\<close>

definition crowding_words :: "string \<Rightarrow> string list" where
  "crowding_words txt =
     filter (\<lambda>w. str_includes (toLowerCase txt) w) [''student'', ''program'', ''million'']"

text \<open>
  The cleanup of a statistical match, \<open>match.trim().replace(/^[^\w]*|[^\w]*$/g, '')\<close>, and
  the contents of the facts that a list of such matches gives: the cleaned matches whose
  length lies strictly between 10 and 200.
\<close>

definition clean_match :: "string \<Rightarrow> string" where
  "clean_match m = strip_non_word (trim m)"

definition kept_contents :: "string list \<Rightarrow> string set" where
  "kept_contents ms =
     set (filter (\<lambda>x. 10 < length x \<and> length x < 200) (map clean_match ms))"

definition fact_summary :: "fact \<Rightarrow> string \<times> string list" where
  "fact_summary f = (fact_content f, suggested_tags f)"

lemma diversify_distinct:
  "distinct (map chunk_id acc) \<Longrightarrow> chunk_id ` set acc \<subseteq> seen \<Longrightarrow>
   distinct (map chunk_id (diversify limit acc seen counts cs))"
proof (induction cs arbitrary: acc seen counts)
  case Nil
  then show ?case by simp
next
  case (Cons c cs)
  show ?case
  proof (cases "chunk_id c \<in> seen")
    case True
    then show ?thesis using Cons by simp
  next
    case False
    have d: "distinct (map chunk_id (acc @ [c]))"
      using Cons.prems False by auto
    have s: "chunk_id ` set (acc @ [c]) \<subseteq> insert (chunk_id c) seen"
      using Cons.prems by auto
    show ?thesis
      using False d Cons.IH[OF d s] Cons.IH[OF Cons.prems]
      by (simp add: Let_def)
  qed
qed

lemma merge_results_distinct: "distinct (map chunk_id (merge_results limit pool))"
  unfolding merge_results_def by (rule diversify_distinct) simp_all

lemma searchSimilarChunks_distinct:
  "distinct (map chunk_id (fst (searchSimilarChunks e emb limit q d themes)))"
  unfolding searchSimilarChunks_def
  by (simp add: merge_results_distinct split: option.splits prod.splits)

text \<open>
  C5. No chunk identifier appears twice in a merged result set: neither in the output of the
  merge step on any candidate pool and any limit, nor in what \<open>searchSimilarChunks\<close> returns.
\<close>

theorem C5_no_duplicate_chunk_ids:
  "distinct (map chunk_id (merge_results limit pool)) \<and>
   distinct (map chunk_id (fst (searchSimilarChunks e emb limit q d themes)))"
  using merge_results_distinct searchSimilarChunks_distinct by blast

lemma diversify_title_count:
  "(\<And>t. title_count t acc = (case counts t of None \<Rightarrow> 0 | Some n \<Rightarrow> n)) \<Longrightarrow>
   (\<And>t. title_count t acc \<le> maxPerDocument) \<Longrightarrow>
   title_count t (diversify limit acc seen counts cs) \<le> maxPerDocument"
proof (induction cs arbitrary: acc seen counts)
  case Nil
  then show ?case by simp
next
  case (Cons c cs)
  let ?n = "case counts (document_title c) of None \<Rightarrow> 0 | Some n \<Rightarrow> n"
  show ?case
  proof (cases "chunk_id c \<notin> seen \<and> ?n < maxPerDocument")
    case False
    then show ?thesis using Cons.IH[OF Cons.prems] by (auto simp: Let_def)
  next
    case True
    let ?counts' = "counts(document_title c \<mapsto> ?n + 1)"
    have n: "title_count (document_title c) acc = ?n" using Cons.prems(1) .
    have a: "title_count u (acc @ [c]) = (case ?counts' u of None \<Rightarrow> 0 | Some n \<Rightarrow> n)" for u
      using Cons.prems(1)[of u] n by (simp add: title_count_def)
    have b: "title_count u (acc @ [c]) \<le> maxPerDocument" for u
      using Cons.prems(2)[of u] True n by (auto simp: title_count_def)
    have ih: "title_count t (diversify limit (acc @ [c]) (insert (chunk_id c) seen) ?counts' cs)
              \<le> maxPerDocument"
      by (rule Cons.IH[OF a b])
    show ?thesis
      using True b[of t] ih by (simp add: Let_def)
  qed
qed

lemma merge_results_title_count: "title_count t (merge_results limit pool) \<le> maxPerDocument"
  unfolding merge_results_def by (rule diversify_title_count) (simp_all add: title_count_def)

lemmas example_defs =
  mk_chunk_def mk_env_def doc42_table_def pool_abc_def example_request_def

lemmas search_defs =
  searchSimilarChunks_def merge_results_def sort_by_similarity_def similarity_or_0_def
  maxPerDocument_def supabase_def select_columns_def vector_search_def hoodie_search_def
  fallback_search_def theme_search_def Let_def

lemma searchSimilarChunks_title_count:
  "title_count t (fst (searchSimilarChunks e emb limit q d themes)) \<le> maxPerDocument"
  unfolding searchSimilarChunks_def
  by (simp add: merge_results_title_count split: option.splits prod.splits)
     (simp add: title_count_def)

lemma document_count_le_title_count:
  assumes "one_title_per_document cs" and "\<And>t. title_count t cs \<le> n"
  shows "document_count d cs \<le> n"
proof (cases "\<exists>c\<in>set cs. document_id c = d")
  case False
  then have "filter (\<lambda>c. document_id c = d) cs = []" by (simp add: filter_empty_conv)
  then show ?thesis by (simp add: document_count_def)
next
  case True
  then obtain c0 where c0: "c0 \<in> set cs" "document_id c0 = d" by blast
  have t: "document_title c = document_title c0" if "c \<in> set cs" "document_id c = d" for c
    using assms(1) c0 that unfolding one_title_per_document_def by blast
  have "filter (\<lambda>c. document_id c = d) (filter (\<lambda>c. document_title c = document_title c0) cs)
        = filter (\<lambda>c. document_id c = d) cs"
    unfolding filter_filter by (rule filter_cong[OF refl]) (use t in blast)
  then have "document_count d cs
             = length (filter (\<lambda>c. document_id c = d)
                         (filter (\<lambda>c. document_title c = document_title c0) cs))"
    by (simp add: document_count_def)
  also have "\<dots> \<le> title_count (document_title c0) cs"
    unfolding title_count_def by (rule length_filter_le)
  finally have "document_count d cs \<le> title_count (document_title c0) cs" .
  then show ?thesis using assms(2)[of "document_title c0"] by simp
qed

text \<open>
  C4, as the code has it. For a request without a document scope whose merged result set
  gives the chunks of each document one title, no source document contributes more than
  the cap of 2 results. This holds for every candidate pool and every requested number of
  results: nothing relaxes the cap when fewer results than requested can be reached.
\<close>

theorem C4_document_cap_is_hard:
  assumes "documentId = None \<or> documentId = Some []"
    and "one_title_per_document (fst (searchSimilarChunks e emb limit q documentId themes))"
  shows "document_count d (fst (searchSimilarChunks e emb limit q documentId themes)) \<le> 2"
  using document_count_le_title_count[OF assms(2), of maxPerDocument d]
        searchSimilarChunks_title_count[of _ e emb limit q documentId themes]
  by (simp add: maxPerDocument_def)

lemma search_pool_abc:
  "searchSimilarChunks (vector_env pool_abc) [] 5 (Some ''summary'') None [] =
     ([mk_chunk ''a1'' ''docA'' ''A'' 0 ''x'', mk_chunk ''a2'' ''docA'' ''A'' 1 ''x'',
       mk_chunk ''b1'' ''docB'' ''B'' 0 ''x'', mk_chunk ''c1'' ''docC'' ''C'' 0 ''x''],
      [RpcMatchChunks])"
  by (simp add: vector_env_def example_defs search_defs str_includes_def toLowerCase_def
                lower_char_def sublist_code)

text \<open>
  C4 at a concrete request: the vector search finds the five candidates of \<open>pool_abc\<close>,
  three of them of document A.
\<close>

theorem C4_document_cap_is_hard_witness:
  "one_title_per_document
     (fst (searchSimilarChunks (vector_env pool_abc) [] 5 (Some ''summary'') None [])) \<and>
   document_count ''docA''
     (fst (searchSimilarChunks (vector_env pool_abc) [] 5 (Some ''summary'') None [])) \<le> 2"
proof -
  have h: "one_title_per_document
             (fst (searchSimilarChunks (vector_env pool_abc) [] 5 (Some ''summary'') None []))"
    unfolding search_pool_abc by (simp add: one_title_per_document_def mk_chunk_def)
  show ?thesis
    using h C4_document_cap_is_hard[of None "vector_env pool_abc" "[]" 5 "Some ''summary''" "[]"
             "''docA''", OF _ h]
    by simp
qed

text \<open>
  C4, as the claim states it, fails. The vector search finds five candidates, fewer than
  \<open>cap \<times> distinctDocuments = 2 \<times> 3\<close>; five results are requested, and only the third chunk
  of document A could supply the fifth. The search returns four results, and document A,
  with three candidates, still contributes two: the cap is not exceeded.
\<close>

theorem C4_cap_not_relaxed_counterexample:
  "length pool_abc < maxPerDocument * card (document_id ` set pool_abc) \<and>
   searchSimilarChunks (vector_env pool_abc) [] 5 (Some ''summary'') None [] =
     ([mk_chunk ''a1'' ''docA'' ''A'' 0 ''x'', mk_chunk ''a2'' ''docA'' ''A'' 1 ''x'',
       mk_chunk ''b1'' ''docB'' ''B'' 0 ''x'', mk_chunk ''c1'' ''docC'' ''C'' 0 ''x''],
      [RpcMatchChunks]) \<and>
   document_count ''docA'' pool_abc = 3 \<and>
   document_count ''docA''
     (fst (searchSimilarChunks (vector_env pool_abc) [] 5 (Some ''summary'') None [])) = 2"
  unfolding search_pool_abc
  by (simp add: example_defs maxPerDocument_def document_count_def)

text \<open>
  The count of the loop is kept per \<open>document_title\<close>. When the chunks of one document are
  stored under two titles, that document contributes two results per title.
\<close>

lemma two_titled_document_contributes_four:
  "fst (searchSimilarChunks (vector_env two_titled_pool) [] 5 (Some ''summary'') None [])
     = two_titled_pool \<and>
   document_count ''docD'' two_titled_pool = 4"
  by (simp add: vector_env_def two_titled_pool_def example_defs search_defs document_count_def
                str_includes_def toLowerCase_def lower_char_def sublist_code)

text \<open>
  C1. The code at the scenario's input: document \<open>doc_42\<close> has seven chunks, the limit is 5.
  The document query returns the chunks in ascending index order and the first five are
  kept, but the merge step then applies the per-title limit, and the search returns the
  two chunks of index 0 and 1, not five.
\<close>

theorem C1_document_scoped_returns_two:
  "searchSimilarChunks (mk_env doc42_table) [] 5 (Some ''summary'') (Some ''doc_42'') [] =
     ([mk_chunk ''k0'' ''doc_42'' ''Annual Report'' 0 ''part 0'',
       mk_chunk ''k1'' ''doc_42'' ''Annual Report'' 1 ''part 1''],
      [SelectDocumentChunks ''doc_42''])"
  by (simp add: example_defs search_defs)

lemmas string_defs = str_includes_def toLowerCase_def lower_char_def sublist_code

lemma diversify_keeps_results: "acc \<noteq> [] \<Longrightarrow> diversify limit acc seen counts cs \<noteq> []"
  by (induction cs arbitrary: acc seen counts) (auto simp: Let_def)

lemma merge_results_nonempty: "pool \<noteq> [] \<Longrightarrow> merge_results limit pool \<noteq> []"
proof -
  assume "pool \<noteq> []"
  then have "sort_by_similarity pool \<noteq> []"
    unfolding sort_by_similarity_def by (metis length_0_conv length_sort)
  then obtain c cs where s: "sort_by_similarity pool = c # cs"
    by (cases "sort_by_similarity pool") auto
  show ?thesis
    unfolding merge_results_def s
    by (simp add: Let_def maxPerDocument_def diversify_keeps_results)
qed

lemma diversify_subset: "set (diversify limit acc seen counts cs) \<subseteq> set acc \<union> set cs"
proof (induction cs arbitrary: acc seen counts)
  case Nil
  then show ?case by simp
next
  case (Cons c cs)
  have "set (diversify limit (acc @ [c]) S C cs) \<subseteq> set (acc @ [c]) \<union> set cs" for S C
    by (rule Cons.IH)
  moreover have "set (diversify limit acc seen counts cs) \<subseteq> set acc \<union> set cs"
    by (rule Cons.IH)
  ultimately show ?case by (auto simp: Let_def)
qed

lemma merge_results_subset: "set (merge_results limit pool) \<subseteq> set pool"
  unfolding merge_results_def sort_by_similarity_def
  using diversify_subset[of limit "[]" "{}" Map.empty "sort_key (\<lambda>c. - similarity_or_0 c) pool"]
  by simp

text \<open>
  C2, as the code has it. The fallback sits in the branch for requests without a document
  scope, and its query can fail like any other. For a request with no document scope, on a
  non-empty table and with a fallback query that does not fail, the search returns at least
  one chunk; and when the theme or vector search and the direct match both add nothing, the
  fallback query is issued and every returned chunk is one of the first five rows.
\<close>

theorem C2_fallback_when_unscoped:
  assumes "documentId = None \<or> documentId = Some []"
    and "document_chunks e \<noteq> []"
    and "\<not> query_error e SelectFallbackChunks"
  shows "fst (searchSimilarChunks e emb limit q documentId themes) \<noteq> [] \<and>
         (fst (if themes \<noteq> [] then theme_search e themes else vector_search e emb) = [] \<and>
          fst (hoodie_search e q) = [] \<longrightarrow>
            SelectFallbackChunks \<in> set (snd (searchSimilarChunks e emb limit q documentId themes)) \<and>
            set (fst (searchSimilarChunks e emb limit q documentId themes))
              \<subseteq> set (map select_columns (take 5 (document_chunks e))))"
proof -
  obtain r1 t1 where a: "(if themes \<noteq> [] then theme_search e themes else vector_search e emb) = (r1, t1)"
    by (cases "if themes \<noteq> [] then theme_search e themes else vector_search e emb") auto
  obtain r2 t2 where b: "hoodie_search e q = (r2, t2)"
    by (cases "hoodie_search e q") auto
  have fb: "fallback_search e = (map select_columns (take 5 (document_chunks e)), [SelectFallbackChunks])"
    using assms(3) by (simp add: fallback_search_def supabase_def)
  have ne: "map select_columns (take 5 (document_chunks e)) \<noteq> []"
    using assms(2) by (cases "document_chunks e") auto
  have s: "searchSimilarChunks e emb limit q documentId themes =
           (if r1 @ r2 = []
            then (merge_results limit (map select_columns (take 5 (document_chunks e))),
                  t1 @ t2 @ [SelectFallbackChunks])
            else (merge_results limit (r1 @ r2), t1 @ t2))"
    using assms(1) a b fb unfolding searchSimilarChunks_def
    by (auto simp: Let_def)
  have sub: "set (merge_results limit (map select_columns (take 5 (document_chunks e))))
             \<subseteq> set (map select_columns (take 5 (document_chunks e)))"
    by (rule merge_results_subset)
  have "fst (searchSimilarChunks e emb limit q documentId themes) \<noteq> []"
    using s ne merge_results_nonempty by (cases "r1 @ r2 = []") simp_all
  moreover have "r1 = [] \<and> r2 = [] \<longrightarrow>
      SelectFallbackChunks \<in> set (snd (searchSimilarChunks e emb limit q documentId themes)) \<and>
      set (fst (searchSimilarChunks e emb limit q documentId themes))
        \<subseteq> set (map select_columns (take 5 (document_chunks e)))"
    using s sub by simp
  ultimately show ?thesis
    using a b by simp
qed

text \<open>
  C2 at a concrete request: no scope, the vector search and the direct match find nothing,
  the table is not empty; the fallback query is issued and the result is not empty.
\<close>

theorem C2_fallback_when_unscoped_witness:
  "document_chunks (mk_env doc42_table) \<noteq> [] \<and>
   \<not> query_error (mk_env doc42_table) SelectFallbackChunks \<and>
   fst (vector_search (mk_env doc42_table) []) = [] \<and>
   fst (hoodie_search (mk_env doc42_table) (Some ''hello'')) = [] \<and>
   fst (searchSimilarChunks (mk_env doc42_table) [] 5 (Some ''hello'') None []) \<noteq> [] \<and>
   SelectFallbackChunks
     \<in> set (snd (searchSimilarChunks (mk_env doc42_table) [] 5 (Some ''hello'') None []))"
proof -
  have h1: "document_chunks (mk_env doc42_table) \<noteq> []" by (simp add: example_defs)
  have h2: "\<not> query_error (mk_env doc42_table) SelectFallbackChunks" by (simp add: example_defs)
  have h3: "fst (vector_search (mk_env doc42_table) []) = []"
    by (simp add: example_defs vector_search_def)
  have h4: "fst (hoodie_search (mk_env doc42_table) (Some ''hello'')) = []"
    by (simp add: hoodie_search_def string_defs)
  show ?thesis
    using h1 h2 h3 h4
      C2_fallback_when_unscoped[of None "mk_env doc42_table" "[]" 5 "Some ''hello''" "[]", OF _ h1 h2]
    by simp
qed

text \<open>
  C2, as the claim states it, fails twice on a non-empty table. A request scoped to a
  document without chunks gets an empty result, and no fallback query is issued. A request
  without scope, when every query of the database fails, gets an empty result too: the
  fallback query fails with the others.
\<close>

theorem C2_empty_result_counterexample:
  "document_chunks (mk_env doc42_table) \<noteq> [] \<and>
   searchSimilarChunks (mk_env doc42_table) [] 5 (Some ''summary'') (Some ''doc_99'') [] =
     ([], [SelectDocumentChunks ''doc_99'']) \<and>
   searchSimilarChunks
     ((mk_env doc42_table)\<lparr>query_error := (\<lambda>q. True), match_chunks := (\<lambda>v th k. None)\<rparr>)
     [] 5 (Some ''summary'') None [] =
     ([], [RpcMatchChunks, SelectFallbackChunks])"
  by (simp add: example_defs search_defs string_defs)

text \<open>
  C3, as the code has it. When the embedding call throws, \<open>generateEmbedding\<close> rethrows an
  error with the message \<open>Failed to generate embedding\<close>; the handler's \<open>catch\<close> answers
  status 500 with the generic message \<open>Internal server error\<close>, and the embedding call is
  the only external call of the request: no retrieval query is issued.
\<close>

theorem C3_embedding_failure_is_generic_500:
  assumes "req_message req = Some m" and "m \<noteq> []" and "embeddings_create e m = None"
  shows "generateEmbedding e m =
           (Inl (Error ''Failed to generate embedding''), [EmbeddingsCreate m]) \<and>
         POST e (Some req) = (JsonError 500 ''Internal server error'', [EmbeddingsCreate m])"
  using assms by (simp add: POST_def generateEmbedding_def)

theorem C3_embedding_failure_is_generic_500_witness:
  "POST ((mk_env doc42_table)\<lparr>embeddings_create := (\<lambda>t. None)\<rparr>)
        (Some (example_request ''hello'')) =
     (JsonError 500 ''Internal server error'', [EmbeddingsCreate ''hello''])"
  using C3_embedding_failure_is_generic_500[of "example_request ''hello''" "''hello''"
          "(mk_env doc42_table)\<lparr>embeddings_create := (\<lambda>t. None)\<rparr>"]
  by (simp add: example_defs)

lemma generateResponse_openai_throws:
  "model \<noteq> ''anthropic'' \<Longrightarrow> openai_create e = (\<lambda>ms. None) \<Longrightarrow>
   fst (generateResponse e query chunks model history enh)
     = Inl (Error ''Failed to generate response'')"
  by (simp add: generateResponse_def Let_def)

lemma POST_generation_failure:
  assumes g: "\<And>cs mo en. mo \<noteq> ''anthropic'' \<Longrightarrow>
                fst (generateResponse e m cs mo (req_history req) en) = Inl err"
    and m: "req_message req = Some m" "m \<noteq> []" and mo: "req_model req = None"
  shows "fst (POST e (Some req)) = JsonError 500 ''Internal server error''"
proof (cases "generateEmbedding e m")
  case (Pair x t0)
  show ?thesis
  proof (cases x)
    case (Inl a)
    then show ?thesis using Pair m by (simp add: POST_def)
  next
    case (Inr emb)
    obtain rc t1 where s: "searchSimilarChunks e emb 5 (Some m) (req_document_id req)
                             (req_selectedThemes req) = (rc, t1)"
      by (cases "searchSimilarChunks e emb 5 (Some m) (req_document_id req) (req_selectedThemes req)")
    define en where "en = (if req_enable_intelligence req then enhanceWithIntelligence m rc else None)"
    obtain y t2 where r: "generateResponse e m rc ''openai'' (req_history req) en = (y, t2)"
      by (cases "generateResponse e m rc ''openai'' (req_history req) en")
    have "y = Inl err" using g[of "''openai''" rc en] r by simp
    then show ?thesis
      using Pair Inr m mo s r unfolding POST_def en_def by (simp add: Let_def)
  qed
qed

text \<open>
  C3, as the claim states it, fails: the answer to a request whose embedding call throws is
  the same generic status 500 body as the answer to a request whose embedding succeeds and
  whose language model call throws. No error kind of its own reaches the caller.
\<close>

theorem C3_not_distinct_counterexample:
  "fst (POST ((mk_env doc42_table)\<lparr>embeddings_create := (\<lambda>t. None)\<rparr>)
          (Some (example_request ''hello'')))
     = JsonError 500 ''Internal server error'' \<and>
   fst (POST ((mk_env doc42_table)\<lparr>openai_create := (\<lambda>ms. None)\<rparr>)
          (Some (example_request ''hello'')))
     = JsonError 500 ''Internal server error''"
proof -
  have "fst (POST ((mk_env doc42_table)\<lparr>openai_create := (\<lambda>ms. None)\<rparr>)
               (Some (example_request ''hello'')))
     = JsonError 500 ''Internal server error''"
    by (rule POST_generation_failure[where m = "''hello''"], rule generateResponse_openai_throws)
       (simp_all add: example_request_def)
  moreover have "fst (POST ((mk_env doc42_table)\<lparr>embeddings_create := (\<lambda>t. None)\<rparr>)
                        (Some (example_request ''hello'')))
     = JsonError 500 ''Internal server error''"
    by (simp add: POST_def generateEmbedding_def example_request_def)
  ultimately show ?thesis by simp
qed

lemma set_uniq: "set (uniq xs) = set xs"
  by (induction xs rule: uniq.induct) auto

text \<open>
  C9, as the code has it. For a query whose lower-cased text contains \<open>hoodie\<close> and
  \<open>economics\<close>: \<open>Hoodie Economics\<close> is matched; \<open>Community-Centered Economics\<close> is among the
  related concepts exactly when the query does not also contain \<open>relational\<close> (which makes
  it a matched concept, and matched concepts are filtered out); no related concept is a
  matched one, so \<open>Hoodie Economics\<close> is never related; and the enhancement carries this
  related list.
\<close>

theorem C9_hoodie_economics_concepts:
  assumes "str_includes (toLowerCase query) ''hoodie''"
    and "str_includes (toLowerCase query) ''economics''"
  shows "''Hoodie Economics'' \<in> set (findQueryConcepts query) \<and>
         (''Community-Centered Economics'' \<in> set (findRelatedConcepts (findQueryConcepts query))
            \<longleftrightarrow> \<not> str_includes (toLowerCase query) ''relational'') \<and>
         ''Hoodie Economics'' \<notin> set (findRelatedConcepts (findQueryConcepts query)) \<and>
         set (findRelatedConcepts (findQueryConcepts query)) \<inter> set (findQueryConcepts query) = {} \<and>
         map_option related_concepts (enhanceWithIntelligence query chunks)
           = Some (findRelatedConcepts (findQueryConcepts query))"
proof -
  have 1: "''Hoodie Economics'' \<in> set (findQueryConcepts query)"
    using assms by (simp add: findQueryConcepts_def Let_def)
  have 4: "set (findRelatedConcepts (findQueryConcepts query)) \<inter> set (findQueryConcepts query) = {}"
    by (auto simp: findRelatedConcepts_def)
  have 3: "''Hoodie Economics'' \<notin> set (findRelatedConcepts (findQueryConcepts query))"
    using 1 4 by blast
  have 2: "''Community-Centered Economics'' \<in> set (findRelatedConcepts (findQueryConcepts query))
            \<longleftrightarrow> \<not> str_includes (toLowerCase query) ''relational''"
  proof (cases "str_includes (toLowerCase query) ''relational''")
    case True
    then have "''Community-Centered Economics'' \<in> set (findQueryConcepts query)"
      by (simp add: findQueryConcepts_def Let_def)
    then show ?thesis using True 4 by blast
  next
    case False
    have "''Community-Centered Economics'' \<notin> set (findQueryConcepts query)"
      using False by (simp add: findQueryConcepts_def Let_def)
    moreover have "''Community-Centered Economics'' \<in> set (related_of ''Hoodie Economics'')"
      by (simp add: related_of_def)
    ultimately show ?thesis
      using False 1 by (auto simp: findRelatedConcepts_def set_uniq)
  qed
  show ?thesis using 1 2 3 4 by (simp add: enhanceWithIntelligence_def Let_def)
qed

theorem C9_hoodie_economics_concepts_witness:
  "''Hoodie Economics'' \<in> set (findQueryConcepts ''What is Hoodie Economics?'') \<and>
   ''Community-Centered Economics''
     \<in> set (findRelatedConcepts (findQueryConcepts ''What is Hoodie Economics?''))"
proof -
  have h1: "str_includes (toLowerCase ''What is Hoodie Economics?'') ''hoodie''"
    by (simp add: string_defs)
  have h2: "str_includes (toLowerCase ''What is Hoodie Economics?'') ''economics''"
    by (simp add: string_defs)
  have h3: "\<not> str_includes (toLowerCase ''What is Hoodie Economics?'') ''relational''"
    by (simp add: string_defs)
  show ?thesis using C9_hoodie_economics_concepts[OF h1 h2] h3 by simp
qed

text \<open>
  C9, as the claim states it, fails for a query that also contains \<open>relational\<close>: the query
  contains \<open>hoodie\<close> and \<open>economics\<close>, yet \<open>Community-Centered Economics\<close> is matched and so
  is not among the related concepts.
\<close>

theorem C9_relational_counterexample:
  "str_includes (toLowerCase ''hoodie economics, relational'') ''hoodie'' \<and>
   str_includes (toLowerCase ''hoodie economics, relational'') ''economics'' \<and>
   findQueryConcepts ''hoodie economics, relational''
     = [''Hoodie Economics'', ''Community-Centered Economics''] \<and>
   findRelatedConcepts (findQueryConcepts ''hoodie economics, relational'')
     = [''Relational Leadership'', ''Social Innovation'', ''Collective Value Creation''] \<and>
   ''Community-Centered Economics''
     \<notin> set (findRelatedConcepts (findQueryConcepts ''hoodie economics, relational''))"
  by (simp add: findQueryConcepts_def findRelatedConcepts_def related_of_def Let_def string_defs)

lemma generateResponse_Inr:
  assumes "generateResponse e query chunks model history enh = (Inr r, calls)"
  shows "(\<exists>txt. r = \<lparr>response_content = txt, citations = map citation_of chunks,
                     extractable_facts = extractFactsFromResponse txt query chunks,
                     model_used = model, intelligence_enhancement = enh\<rparr>) \<and>
         map prompt_of_call calls = [Some (systemPrompt chunks enh)] \<and>
         ((\<exists>ms. calls = [AnthropicCreate (systemPrompt chunks enh) ms]) \<longleftrightarrow>
            model = ''anthropic'' \<and> anthropic_api_key e \<noteq> None \<and> anthropic_api_key e \<noteq> Some []) \<and>
         ((\<exists>ms. calls = [OpenAICreate ms]) \<longleftrightarrow>
            \<not> (model = ''anthropic'' \<and> anthropic_api_key e \<noteq> None \<and> anthropic_api_key e \<noteq> Some []))"
  using assms unfolding generateResponse_def Let_def
  by (auto split: if_splits option.splits list.splits content_block.splits)

lemma sublist_join: "x \<in> set xs \<Longrightarrow> sublist x (join sep xs)"
proof (induction sep xs rule: join.induct)
  case (1 sep)
  then show ?case by simp
next
  case (2 sep y)
  then show ?case by simp
next
  case (3 sep a b ys)
  show ?case
  proof (cases "x = a")
    case True
    then show ?thesis by simp
  next
    case False
    then have "sublist x (join sep (b # ys))" using 3 by simp
    then show ?thesis
      by (metis "join.simps"(3) sublist_append append_assoc sublist_order.order_trans sublist_appendI suffix_imp_sublist suffixI)
  qed
qed

lemma rendered_in_prompt:
  "c \<in> set chunks \<Longrightarrow> sublist (render_chunk c) (systemPrompt chunks enh)"
proof -
  assume "c \<in> set chunks"
  then have "sublist (render_chunk c) (context_of chunks)"
    unfolding context_of_def by (intro sublist_join) simp
  moreover have "sublist (context_of chunks) (systemPrompt chunks enh)"
    unfolding systemPrompt_def by (rule sublist_appendI)
  ultimately show ?thesis by (rule sublist_order.order_trans)
qed

lemma generateResponse_openai:
  assumes "\<not> (model = ''anthropic'' \<and> anthropic_api_key e \<noteq> None \<and> anthropic_api_key e \<noteq> Some [])"
    and "openai_create e = (\<lambda>ms. Some [Some txt])"
  shows "\<exists>ms. generateResponse e query chunks model history enh =
           (Inr \<lparr>response_content = txt, citations = map citation_of chunks,
                 extractable_facts = extractFactsFromResponse txt query chunks,
                 model_used = model, intelligence_enhancement = enh\<rparr>,
            [OpenAICreate ms])"
  using assms unfolding generateResponse_def Let_def
  by (auto split: option.splits)

text \<open>
  C6. Whenever \<open>generateResponse\<close> returns a response, it has issued exactly one provider
  call; the system prompt of that call is the introduction, the rendering
  \<open>Document: title, Content: text\<close> of each chunk in order, the optional enhancement block
  and the instructions; and the citation list is the chunk list projected one to one, in
  the same order: citation \<open>i\<close> carries the identifier, text, title and document locator of
  chunk \<open>i\<close>, and its rendering occurs in the prompt that was sent.
\<close>

theorem C6_citations_project_prompt_chunks:
  assumes "generateResponse e query chunks model history enh = (Inr r, calls)"
  shows "map prompt_of_call calls = [Some (systemPrompt chunks enh)] \<and>
         systemPrompt chunks enh
           = prompt_intro @ join ''\<newline>\<newline>'' (map render_chunk chunks)
             @ (case enh of None \<Rightarrow> [] | Some en \<Rightarrow> prompt_enhancement en) @ prompt_instructions \<and>
         length (citations r) = length chunks \<and>
         (\<forall>i < length chunks.
            cite_chunk_id (citations r ! i) = chunk_id (chunks ! i) \<and>
            cite_text (citations r ! i) = content (chunks ! i) \<and>
            cite_document_title (citations r ! i) = document_title (chunks ! i) \<and>
            source_url (citations r ! i) = ''/documents/'' @ document_id (chunks ! i) \<and>
            sublist (''Document: '' @ cite_document_title (citations r ! i)
                     @ ''\<newline>Content: '' @ cite_text (citations r ! i))
                    (systemPrompt chunks enh))"
proof -
  from generateResponse_Inr[OF assms]
  have c: "citations r = map citation_of chunks"
    and p: "map prompt_of_call calls = [Some (systemPrompt chunks enh)]"
    by auto
  have "sublist (render_chunk (chunks ! i)) (systemPrompt chunks enh)" if "i < length chunks" for i
    using that by (intro rendered_in_prompt) simp
  then show ?thesis
    using c p by (simp add: citation_of_def render_chunk_def systemPrompt_def context_of_def)
qed

text \<open>C6 at a concrete call with two chunks, answered by OpenAI.\<close>

theorem C6_citations_project_prompt_chunks_witness:
  "\<exists>r calls. generateResponse (mk_env doc42_table) ''hello'' two_chunks ''openai'' [] None = (Inr r, calls) \<and>
     map prompt_of_call calls = [Some (systemPrompt two_chunks None)] \<and>
     length (citations r) = 2 \<and>
     cite_chunk_id (citations r ! 1) = ''n0'' \<and>
     sublist (''Document: '' @ cite_document_title (citations r ! 1)
              @ ''\<newline>Content: '' @ cite_text (citations r ! 1))
             (systemPrompt two_chunks None)"
proof -
  define r where "r = \<lparr>response_content = ''ok'', citations = map citation_of two_chunks,
                 extractable_facts = extractFactsFromResponse ''ok'' ''hello'' two_chunks,
                 model_used = ''openai'', intelligence_enhancement = None\<rparr>"
  obtain ms where h: "generateResponse (mk_env doc42_table) ''hello'' two_chunks ''openai'' [] None =
           (Inr r, [OpenAICreate ms])"
    using generateResponse_openai[of "''openai''" "mk_env doc42_table" "''ok''" "''hello''" two_chunks "[]" None]
    unfolding r_def by (auto simp: mk_env_def)
  note t = C6_citations_project_prompt_chunks[OF h]
  have n: "(1::nat) < length two_chunks"
    by (simp add: two_chunks_def)
  have 1: "map prompt_of_call [OpenAICreate ms] = [Some (systemPrompt two_chunks None)]"
    using t by (rule conjunct1)
  have 2: "length (citations r) = 2"
    by (simp add: r_def two_chunks_def)
  have 3: "cite_chunk_id (citations r ! 1) = ''n0''"
    by (simp add: r_def two_chunks_def mk_chunk_def citation_of_def)
  have 4: "sublist (''Document: '' @ cite_document_title (citations r ! 1)
              @ ''\<newline>Content: '' @ cite_text (citations r ! 1))
             (systemPrompt two_chunks None)"
    by (rule t[THEN conjunct2, THEN conjunct2, THEN conjunct2, rule_format, OF n,
               THEN conjunct2, THEN conjunct2, THEN conjunct2, THEN conjunct2])
  show ?thesis
    by (rule exI[of _ r], rule exI[of _ "[OpenAICreate ms]"]) (intro conjI h 1 2 3 4)
qed



text \<open>
  The extractor returns the first three of the deduplicated facts, so never more than
  three. It reads its answer text and query only; in this embedding it is a function of
  them, and that two runs on the same input agree is not a statement about the function.
\<close>

lemma extractFactsFromResponse_at_most_three:
  "length (extractFactsFromResponse response query chunks) \<le> 3"
  by (simp add: extractFactsFromResponse_def)

lemma rx_star_cls_hd: "\<exists>ys. rx_match (Rep 0 None (Cls p)) s = dropWhile p s # ys"
proof (induction s)
  case Nil
  show ?case by simp
next
  case (Cons a s)
  then obtain ys where ih: "rx_match (Rep 0 None (Cls p)) s = dropWhile p s # ys" by blast
  show ?case
  proof (cases "p a")
    case True
    then have "rx_match (Rep 0 None (Cls p)) (a # s) = dropWhile p (a # s) # (ys @ [a # s])"
      using ih by simp
    then show ?thesis by blast
  next
    case False
    then have "rx_match (Rep 0 None (Cls p)) (a # s) = dropWhile p (a # s) # []"
      by simp
    then show ?thesis by blast
  qed
qed

lemma rx_Rep_Cons:
  "rx_match (Rep m n a) (c # s) =
     (if n = Some 0 then [c # s]
      else concat (map (\<lambda>t. if length t < length (c # s)
                            then rx_match (Rep (m - 1) (map_option (\<lambda>k. k - 1) n) a) t
                            else [])
                     (rx_match a (c # s)))
           @ (if m = 0 then [c # s] else []))"
  by simp

lemma percent_first_match:
  "\<exists>ys. rx_match percent_pattern (''34% increase in completion rates'' @ rest)
         = dropWhile (\<lambda>c. c \<noteq> CHR ''.'') rest # ys"
proof -
  obtain ys0 where s: "rx_match (Rep 0 None (Cls (\<lambda>c. c \<noteq> CHR ''.''))) rest
                        = dropWhile (\<lambda>c. c \<noteq> CHR ''.'') rest # ys0"
    using rx_star_cls_hd by blast
  show ?thesis
    by (simp add: percent_pattern_def seqs_def plus_def opt_def star_def chr_def not_dot_def
                  is_digit_def rx_Rep_Cons s del: rx_match.simps(5))
qed

lemma rx_match_suffix: "t \<in> set (rx_match r s) \<Longrightarrow> suffix t s"
proof (induction r s arbitrary: t rule: rx_match.induct)
  case (1 s)
  then show ?case by simp
next
  case (2 p s)
  then show ?case by (auto split: list.splits if_splits intro: suffix_ConsI simp del: rx_match.simps(5))
next
  case (3 a b s)
  from 3(3) obtain u where u: "u \<in> set (rx_match a s)" "t \<in> set (rx_match b u)"
    by (auto simp del: rx_match.simps(5))
  have "suffix u s" using 3(1) u(1) by blast
  moreover have "suffix t u" using 3(2) u by blast
  ultimately show ?case by (metis suffix_order.order_trans)
next
  case (4 a b s)
  then show ?case by (auto simp del: rx_match.simps(5))
next
  case (5 m n a s)
  show ?case
  proof (cases "n = Some 0")
    case True
    then show ?thesis using 5(3) by simp
  next
    case False
    from 5(3) False consider
      (it) u where "u \<in> set (rx_match a s)" "length u < length s"
            "t \<in> set (rx_match (Rep (m - 1) (map_option (\<lambda>k. k - 1) n) a) u)"
      | (stop) "t = s"
      unfolding rx_match.simps(5)[of m n a s]
      by (auto split: if_splits simp del: rx_match.simps)
    then show ?thesis
    proof cases
      case it
      have "suffix u s" using 5(1)[OF False] it(1) by blast
      moreover have "suffix t u" using 5(2)[OF False it(1) it(2)] it(3) by blast
      ultimately show ?thesis by (metis suffix_order.order_trans)
    next
      case stop
      then show ?thesis by simp
    qed
  qed
qed

lemma plus_shorter:
  assumes "u \<in> set (rx_match (Rep (Suc m) None a) s)"
  shows "length u < length s"
proof -
  from assms obtain x where x: "x \<in> set (rx_match a s)" "length x < length s"
      "u \<in> set (rx_match (Rep m None a) x)"
    unfolding rx_match.simps(5)[of "Suc m" None a s]
    by (auto split: if_splits simp del: rx_match.simps)
  have "length u \<le> length x" using rx_match_suffix[OF x(3)] by (rule suffix_length_le)
  then show ?thesis using x(2) by simp
qed

lemma percent_shorter:
  assumes "t \<in> set (rx_match percent_pattern s)"
  shows "length t < length s"
proof -
  obtain b where pp: "percent_pattern = Seq (Rep (Suc 0) None (Cls is_digit)) b"
    by (simp add: percent_pattern_def seqs_def plus_def)
  from assms obtain u where u: "u \<in> set (rx_match (Rep (Suc 0) None (Cls is_digit)) s)"
      "t \<in> set (rx_match b u)"
    unfolding pp by (auto simp del: rx_match.simps(5))
  have "length t \<le> length u" using rx_match_suffix[OF u(2)] by (rule suffix_length_le)
  then show ?thesis using plus_shorter[OF u(1)] by simp
qed

lemma concat_map_head:
  "concat (map f xs) = t # ys \<Longrightarrow> \<exists>x\<in>set xs. \<exists>zs. f x = t # zs"
proof (induction xs)
  case Nil
  then show ?case by simp
next
  case (Cons x xs)
  then show ?case by (cases "f x") auto
qed

lemma seq_head: "rx_match (Seq a b) s = t # ys \<Longrightarrow> \<exists>u zs. rx_match b u = t # zs"
  using concat_map_head[of "rx_match b" "rx_match a s" t ys]
  by (auto simp del: rx_match.simps(5))

lemma percent_head_dot:
  assumes "rx_match percent_pattern s = t # ys"
  shows "t = [] \<or> hd t = CHR ''.''"
proof -
  let ?st = "Seq (Rep 0 None (Cls (\<lambda>c. c \<noteq> CHR ''.''))) Eps"
  obtain a b c where pp: "percent_pattern = Seq a (Seq b (Seq c ?st))"
    by (simp add: percent_pattern_def seqs_def star_def not_dot_def)
  from assms obtain u1 z1 where "rx_match (Seq b (Seq c ?st)) u1 = t # z1"
    unfolding pp using seq_head by blast
  then obtain u2 z2 where "rx_match (Seq c ?st) u2 = t # z2"
    using seq_head by blast
  then obtain u z where "rx_match ?st u = t # z"
    using seq_head by blast
  moreover have "concat (map (rx_match Eps) xs) = xs" for xs
    by (induction xs) simp_all
  ultimately have "rx_match (Rep 0 None (Cls (\<lambda>c. c \<noteq> CHR ''.''))) u = t # z"
    by (simp del: rx_match.simps(5))
  then have "t = dropWhile (\<lambda>c. c \<noteq> CHR ''.'') u"
    using rx_star_cls_hd[of "\<lambda>c. c \<noteq> CHR ''.''" u] by auto
  then show ?thesis using hd_dropWhile[of "\<lambda>c. c \<noteq> CHR ''.''" u] by auto
qed

lemma span_facts:
  "completion_span \<noteq> []"
  "CHR ''.'' \<notin> set completion_span"
  "\<not> is_space (hd completion_span)" "\<not> is_space (last completion_span)"
  "is_word_char (hd completion_span)" "is_word_char (last completion_span)"
  by (simp_all add: completion_span_def is_space_def is_word_char_def)

lemma percent_matches_at_span:
  assumes "prefix completion_span s"
  shows "rx_match percent_pattern s \<noteq> []"
proof -
  from assms obtain rest where "s = completion_span @ rest" by (auto simp: prefix_def)
  then show ?thesis
    using percent_first_match[of rest, folded completion_span_def] by auto
qed

lemma some_match_holds_span:
  "sublist completion_span s \<Longrightarrow>
   \<exists>m\<in>set (global_match percent_pattern s). sublist completion_span m"
proof (induction s rule: length_induct)
  case (1 s)
  show ?case
  proof (cases s)
    case Nil
    then show ?thesis using 1(2) span_facts(1) by simp
  next
    case (Cons c s')
    show ?thesis
    proof (cases "rx_match percent_pattern s")
      case Nil
      then have "\<not> prefix completion_span s" using percent_matches_at_span by blast
      then have "sublist completion_span s'"
        using 1(2) Cons by (simp add: sublist_Cons_right)
      then have "\<exists>m\<in>set (global_match percent_pattern s'). sublist completion_span m"
        using 1(1) Cons by simp
      moreover have "global_match percent_pattern s = global_match percent_pattern s'"
        using Nil Cons by (simp del: rx_match.simps)
      ultimately show ?thesis by simp
    next
      case (Cons t ys)
      have tin: "t \<in> set (rx_match percent_pattern s)" using Cons by simp
      have lt: "length t < length s" using percent_shorter[OF tin] .
      define m where "m = take (length s - length t) s"
      have s: "s = m @ t" unfolding m_def using rx_match_suffix[OF tin] by (rule suffix_take)
      have gm: "global_match percent_pattern s = m # global_match percent_pattern t"
        using Cons lt \<open>s = c # s'\<close> unfolding m_def by (simp del: rx_match.simps)
      have "sublist completion_span (m @ t)" using 1(2) s by simp
      then consider (l) "sublist completion_span m" | (r) "sublist completion_span t"
        | (x) x1 x2 where "completion_span = x1 @ x2" "suffix x1 m" "prefix x2 t"
        unfolding sublist_append by blast
      then show ?thesis
      proof cases
        case l
        then show ?thesis using gm by simp
      next
        case r
        then have "\<exists>m\<in>set (global_match percent_pattern t). sublist completion_span m"
          using 1(1) lt by simp
        then show ?thesis using gm by simp
      next
        case x
        show ?thesis
        proof (cases "x2 = []")
          case True
          then have "sublist completion_span m" using x by auto
          then show ?thesis using gm by simp
        next
          case False
          then have "t \<noteq> []" "hd t = hd x2" using x(3) by (auto simp: prefix_def)
          moreover have "hd x2 \<in> set completion_span"
            using False x(1) by (metis hd_in_set set_append Un_iff)
          ultimately have False
            using percent_head_dot[OF Cons] span_facts(2) by auto
          then show ?thesis ..
        qed
      qed
    qed
  qed
qed

lemma dropWhile_keeps_sublist:
  assumes "x \<noteq> []" and "\<not> P (hd x)" and "sublist x m"
  shows "sublist x (dropWhile P m)"
proof -
  from assms(3) obtain a b where m: "m = a @ x @ b" by (auto simp: sublist_def)
  have h: "dropWhile P (x @ b) = x @ b" using assms(1,2) by (cases x) auto
  show ?thesis
  proof (cases "\<forall>z\<in>set a. P z")
    case True
    then show ?thesis unfolding m by (simp add: h)
  next
    case False
    then obtain z where "z \<in> set a" "\<not> P z" by blast
    then have "dropWhile P (a @ x @ b) = dropWhile P a @ x @ b" by (rule dropWhile_append1)
    then show ?thesis unfolding m by simp
  qed
qed


lemma rstrip_keeps_sublist:
  assumes "x \<noteq> []" and "\<not> P (last x)" and "sublist x m"
  shows "sublist x (rev (dropWhile P (rev m)))"
proof -
  have "sublist (rev x) (dropWhile P (rev m))"
    using assms by (intro dropWhile_keeps_sublist) (simp_all add: hd_rev)
  then show ?thesis by (simp add: sublist_rev_right)
qed


lemma clean_keeps_span:
  assumes "sublist completion_span m"
  shows "sublist completion_span (strip_non_word (trim m))"
proof -
  have "sublist completion_span (trim m)"
    unfolding trim_def using span_facts assms
    by (intro rstrip_keeps_sublist dropWhile_keeps_sublist)
  then show ?thesis
    unfolding strip_non_word_def using span_facts
    by (intro rstrip_keeps_sublist dropWhile_keeps_sublist) simp_all
qed


lemma university_query_flags:
  "\<not> str_includes (toLowerCase university_query) ''impact''"
  "\<not> str_includes (toLowerCase university_query) ''education''"
  "str_includes (toLowerCase university_query) ''university''"
  "\<not> str_includes (toLowerCase university_query) ''student''"
  by (simp_all add: university_query_def string_defs)


lemma span_words:
  assumes "sublist completion_span txt"
  shows "str_includes (toLowerCase txt) ''completion''"
    and "str_includes (toLowerCase txt) ''%''"
    and "str_includes txt ''34%''"
proof -
  have a: "sublist ''completion'' (toLowerCase completion_span)"
    and b: "sublist ''%'' (toLowerCase completion_span)"
    and c: "sublist ''34%'' completion_span"
    by (simp_all add: completion_span_def string_defs)
  have l: "sublist (toLowerCase completion_span) (toLowerCase txt)"
    unfolding toLowerCase_def using assms by (rule map_mono_sublist)
  show "str_includes (toLowerCase txt) ''completion''"
    unfolding str_includes_def using a l by (rule sublist_order.order_trans)
  show "str_includes (toLowerCase txt) ''%''"
    unfolding str_includes_def using b l by (rule sublist_order.order_trans)
  show "str_includes txt ''34%''"
    unfolding str_includes_def using c assms by (rule sublist_order.order_trans)
qed


lemma statistics_tag:
  assumes "sublist completion_span txt" and "length (crowding_words txt) \<le> 1"
  shows "''statistics'' \<in> set (extractTagsFromContent txt university_query)"
  unfolding extractTagsFromContent_def
  using assms(2) university_query_flags span_words(1,2)[OF assms(1)]
  by (simp add: crowding_words_def split: if_splits)


lemma set_dedupe_facts: "set (dedupe_facts fs) \<subseteq> set fs"
  by (induction fs rule: dedupe_facts.induct) auto


lemma dedupe_keeps_distinct_early:
  "card (fact_content ` set A) < n \<Longrightarrow>
   \<exists>g\<in>set (take n (dedupe_facts (A @ f # B))). fact_content g = fact_content f"
proof (induction A arbitrary: n B rule: length_induct)
  case (1 A)
  obtain k where n: "n = Suc k" using 1(2) by (cases n) auto
  show ?case
  proof (cases A)
    case Nil
    then show ?thesis using n by auto
  next
    case (Cons a A')
    show ?thesis
    proof (cases "fact_content a = fact_content f")
      case True
      then show ?thesis using Cons n by auto
    next
      case False
      let ?P = "\<lambda>g. fact_content g \<noteq> fact_content a"
      have e: "fact_content ` set (filter ?P A') = fact_content ` set A' - {fact_content a}"
        by auto
      have "card (fact_content ` set A)
            = Suc (card (fact_content ` set A' - {fact_content a}))"
        unfolding Cons by (simp add: card.insert_remove)
      then have l: "card (fact_content ` set (filter ?P A')) < k"
        using 1(2) n e by simp
      have "length A' < length A" using Cons by simp
      then have "length (filter ?P A') < length A"
        by (rule le_less_trans[OF length_filter_le])
      then have "\<exists>g\<in>set (take k (dedupe_facts (filter ?P A' @ f # filter ?P B))).
                   fact_content g = fact_content f"
        using 1(1) l by blast
      then show ?thesis using Cons n False by auto
    qed
  qed
qed

lemma all_facts_tags:
  "g \<in> set (all_facts r q) \<Longrightarrow> suggested_tags g = extractTagsFromContent (fact_content g) q"
  unfolding all_facts_def pattern_facts_def sentence_facts_def
  by (auto simp: Let_def split: if_splits)


lemma pattern_facts_Cons:
  "pattern_facts (p # ps) clean lo hi conf label r q =
     concat (map (\<lambda>m. let cleanMatch = clean m in
                       if length cleanMatch > lo \<and> length cleanMatch < hi
                       then [\<lparr>fact_content = cleanMatch, confidence = conf,
                              source_context = label @ q @ [CHR 0x22],
                              suggested_tags = extractTagsFromContent cleanMatch q\<rparr>]
                       else [])
                  (global_match p r))
     @ pattern_facts ps clean lo hi conf label r q"
  by (simp add: pattern_facts_def)


lemma contents_concat_map_if:
  "fact_content ` set (concat (map (\<lambda>m. if K m then [F m] else []) ms))
     = (\<lambda>m. fact_content (F m)) ` set (filter K ms)"
  by (induction ms) auto

text \<open>
  C8, as the code has it. Call the matches of the first statistical pattern (a number with
  a percent sign and the text up to the next full stop) the percentage matches of the
  answer; an answer that contains the span always has a percentage match that holds it
  (\<open>some_match_holds_span\<close>). Take the scenario's query and any answer text. If one of its
  percentage matches holds the span, is shorter than 200 characters once cleaned and
  contains at most one of the words \<open>student\<close>, \<open>program\<close> and \<open>million\<close> (in any case),
  and the percentage matches before it give fewer than three different facts, then the
  extractor returns a fact whose content contains \<open>34%\<close> and whose suggested tags include
  \<open>statistics\<close>.
\<close>

theorem C8_completion_rate_fact:
  assumes ms: "global_match percent_pattern answer = before @ m # after"
    and hm: "str_includes m completion_span"
    and hi: "length (clean_match m) < 200"
    and cw: "length (crowding_words (clean_match m)) \<le> 1"
    and early: "card (kept_contents before) < 3"
  shows "\<exists>f\<in>set (extractFactsFromResponse answer university_query chunks).
           str_includes (fact_content f) ''34%'' \<and> ''statistics'' \<in> set (suggested_tags f)"
proof -
  let ?clean = "\<lambda>m. strip_non_word (trim m)"
  let ?K = "\<lambda>m. 10 < length (?clean m) \<and> length (?clean m) < 200"
  let ?F = "\<lambda>m. \<lparr>fact_content = ?clean m, confidence = 8 / 10,
                  source_context = (''Statistical information from: '' @ [CHR 0x22])
                                   @ university_query @ [CHR 0x22],
                  suggested_tags = extractTagsFromContent (?clean m) university_query\<rparr>"
  let ?G = "\<lambda>m. if ?K m then [?F m] else []"
  have cm: "sublist completion_span (?clean m)"
    using hm unfolding str_includes_def by (rule clean_keeps_span)
  have "length completion_span \<le> length (?clean m)" using cm by (rule sublist_length_le)
  then have lo: "10 < length (?clean m)" by (simp add: completion_span_def)
  have hi': "length (?clean m) < 200" using hi by (simp add: clean_match_def)
  have cw': "length (crowding_words (?clean m)) \<le> 1" using cw by (simp add: clean_match_def)
  obtain ps where sp: "statPatterns = percent_pattern # ps"
    by (simp add: statPatterns_def)
  define A where "A = concat (map ?G before)"
  have "fact_content ` set A = ?clean ` set (filter ?K before)"
    unfolding A_def contents_concat_map_if by simp
  also have "\<dots> = kept_contents before"
    unfolding kept_contents_def clean_match_def by (auto simp: filter_map o_def)
  finally have lA: "card (fact_content ` set A) < 3" using early by simp
  have "concat (map ?G (global_match percent_pattern answer))
        = A @ ?F m # concat (map ?G after)"
    unfolding ms A_def using lo hi' by simp
  then obtain B where af: "all_facts answer university_query = A @ ?F m # B"
    unfolding all_facts_def sp pattern_facts_Cons by (simp add: Let_def)
  obtain g where g: "g \<in> set (take 3 (dedupe_facts (all_facts answer university_query)))"
      "fact_content g = ?clean m"
    using dedupe_keeps_distinct_early[OF lA, of "?F m" B] unfolding af by auto
  have "g \<in> set (all_facts answer university_query)"
    using g(1) set_dedupe_facts by (meson in_set_takeD subsetD)
  then have tg: "suggested_tags g = extractTagsFromContent (?clean m) university_query"
    using all_facts_tags g(2) by metis
  have "str_includes (fact_content g) ''34%''"
    using span_words(3)[OF cm] g(2) by simp
  moreover have "''statistics'' \<in> set (suggested_tags g)"
    using statistics_tag[OF cm cw'] tg by simp
  ultimately show ?thesis
    using g(1) unfolding extractFactsFromResponse_def by blast
qed

lemma answer_2023_matches:
  "global_match percent_pattern answer_2023 = [''34% increase in completion rates for students'']"
  unfolding answer_2023_def by code_simp

text \<open>C8 at a concrete answer, with a year before the span and the word \<open>students\<close> after it.\<close>

theorem C8_completion_rate_fact_witness:
  "global_match percent_pattern answer_2023
     = [] @ ''34% increase in completion rates for students'' # [] \<and>
   (\<exists>f\<in>set (extractFactsFromResponse answer_2023 university_query ([] :: chunk list)).
      str_includes (fact_content f) ''34%'' \<and> ''statistics'' \<in> set (suggested_tags f))"
proof -
  let ?m = "''34% increase in completion rates for students''"
  have h0: "global_match percent_pattern answer_2023 = [] @ ?m # []"
    using answer_2023_matches by simp
  have h1: "str_includes ?m completion_span" by code_simp
  have h2: "length (clean_match ?m) < 200" by code_simp
  have h3: "length (crowding_words (clean_match ?m)) \<le> 1" by code_simp
  have h4: "card (kept_contents []) < 3" by (simp add: kept_contents_def)
  show ?thesis
    using h0 C8_completion_rate_fact[OF h0 h1 h2 h3 h4] by blast
qed

lemma tags_cut_answer:
  "map fact_summary
     (extractFactsFromResponse ''34% increase in completion rates for students in the program''
        university_query ([] :: chunk list))
   = [(''34% increase in completion rates for students in the program'',
       [''university'', ''students'', ''programs'', ''completion-rates''])]"
  by code_simp

lemma crowded_answer:
  "map fact_summary
     (extractFactsFromResponse
        ''1% of cohort A. 2% of cohort B. 3% of cohort C. 34% increase in completion rates.''
        university_query ([] :: chunk list))
   = [(''1% of cohort A'', [''university'', ''statistics'']),
      (''2% of cohort B'', [''university'', ''statistics'']),
      (''3% of cohort C'', [''university'', ''statistics''])]"
  by code_simp

lemma long_answer_stat:
  "pattern_facts statPatterns (\<lambda>m. strip_non_word (trim m)) 10 200 (8 / 10)
     (''Statistical information from: '' @ [CHR 0x22]) long_answer university_query = []"
  by code_simp

lemma long_answer_aime:
  "pattern_facts aimePatterns trim 20 200 (7 / 10)
     (''AIME program information from: '' @ [CHR 0x22]) long_answer university_query = []"
  by code_simp

lemma long_answer_concept:
  "pattern_facts conceptPatterns trim 25 200 (6 / 10)
     (''Concept definition from: '' @ [CHR 0x22]) long_answer university_query = []"
  by code_simp

lemma long_answer_sentence: "sentence_facts long_answer university_query = []"
  by code_simp

lemma long_answer_no_facts:
  "extractFactsFromResponse long_answer university_query ([] :: chunk list) = []"
  unfolding extractFactsFromResponse_def all_facts_def
  by (simp only: long_answer_stat long_answer_aime long_answer_concept long_answer_sentence
                 append_Nil dedupe_facts.simps take.simps)

text \<open>
  C8, as the claim states it, fails on three answers that contain the span. In the first,
  the one fact carries four tags and \<open>statistics\<close>, a later candidate, is cut by the limit
  of four. In the second, three earlier percentage facts fill the limit of three and no
  fact holds \<open>34%\<close>. In the third, the match is 200 characters long and is dropped: no fact
  is returned.
\<close>

theorem C8_no_statistics_fact_counterexample:
  "map fact_summary
     (extractFactsFromResponse ''34% increase in completion rates for students in the program''
        university_query ([] :: chunk list))
   = [(''34% increase in completion rates for students in the program'',
       [''university'', ''students'', ''programs'', ''completion-rates''])] \<and>
   map fact_summary
     (extractFactsFromResponse
        ''1% of cohort A. 2% of cohort B. 3% of cohort C. 34% increase in completion rates.''
        university_query ([] :: chunk list))
   = [(''1% of cohort A'', [''university'', ''statistics'']),
      (''2% of cohort B'', [''university'', ''statistics'']),
      (''3% of cohort C'', [''university'', ''statistics''])] \<and>
   long_answer = completion_span @ replicate 168 CHR ''a'' \<and>
   extractFactsFromResponse long_answer university_query ([] :: chunk list) = []"
  by (intro conjI tags_cut_answer crowded_answer long_answer_def long_answer_no_facts)

end
